theory Spec2Isabelle
  imports Complex_Main
begin

section \<open>Values, exceptions and responses\<close>

text \<open>
  The service (\<^verbatim>\<open>app.py\<close>) decodes a JSON body into Python values, and a cell of a
  pandas frame holds one such value. A JSON number without fraction or exponent decodes
  to a Python \<^verbatim>\<open>int\<close> (\<open>PInt\<close>, unbounded), any other to a \<^verbatim>\<open>float\<close> (\<open>PFloat\<close>, its
  value a real; the infinities are left out). \<open>PNaN\<close> is the float NaN and \<open>PNone\<close> is
  \<^verbatim>\<open>None\<close> (JSON \<^verbatim>\<open>null\<close>); these two are what pandas' \<^verbatim>\<open>isnull\<close> reports as
  missing. A character of a string stands for one code point.
\<close>

datatype pyval =
    PNone
  | PNaN
  | PBool bool
  | PInt int
  | PFloat real
  | PStr string
  | PList "pyval list"
  | PDict "(string \<times> pyval) list"

text \<open>
  A Python \<^verbatim>\<open>float\<close> as a model method returns it and as the handler puts it into its
  result: a finite value, NaN, or an infinity.
\<close>

datatype pyfloat = Finite real | NotANumber | PlusInf | MinusInf

text \<open>
  Exceptions are values. Every constructor stands for an instance of a subclass of
  Python's \<^verbatim>\<open>Exception\<close>; \<open>ArtifactError\<close> is whatever a loaded scaler or model
  raises from inside one of its methods.
\<close>

datatype exn =
    HTTPException nat string
  | KeyError
  | IndexError
  | TypeError
  | ValueError
  | AttributeError
  | ArtifactError string

text \<open>
  The three dictionaries the handler can return: the prediction result, the bare
  \<^verbatim>\<open>{"error": ...}\<close> and \<^verbatim>\<open>{"error": str(e), "trace": format_exc()}\<close>, which is
  determined by the exception it reports.
\<close>

datatype body =
    PredictionResult int "pyfloat option"
  | ErrorOnly string
  | ErrorTrace exn

text \<open>
  What a FastAPI path function does: it returns a value or it raises. A returned
  dictionary is rendered as JSON with \<^verbatim>\<open>allow_nan=False\<close>: it is sent with status 200
  when every float in it is finite, and the rendering raises otherwise, which the server
  answers with status 500. A raised \<^verbatim>\<open>HTTPException\<close> is sent with its own status code
  and any other exception as 500.
\<close>

fun json_compliant :: "body \<Rightarrow> bool" where
  "json_compliant (PredictionResult prediction None) = True"
| "json_compliant (PredictionResult prediction (Some (Finite p))) = True"
| "json_compliant (PredictionResult prediction (Some p)) = False"
| "json_compliant (ErrorOnly msg) = True"
| "json_compliant (ErrorTrace e) = True"

datatype outcome = Returned body | Raised exn

fun http_status :: "outcome \<Rightarrow> nat" where
  "http_status (Returned b) = (if json_compliant b then 200 else 500)"
| "http_status (Raised (HTTPException code detail)) = code"
| "http_status (Raised e) = 500"

fun isnull :: "pyval \<Rightarrow> bool" where
  "isnull PNone = True"
| "isnull PNaN = True"
| "isnull v = False"

section \<open>Column types and conversion to float64\<close>

text \<open>
  pandas gives every column a dtype, inferred from its cells: integers that fit int64 make
  an int64 column, integers from \<open>2^63\<close> up to \<open>2^64 - 1\<close> a uint64 column, floats
  (NaN included) a float64 column, booleans a bool column, and anything else (strings,
  \<^verbatim>\<open>None\<close>, lists, dictionaries, larger integers) an object column. The inference is
  exact for a column of one cell, which is all the handler builds; for longer columns
  \<^verbatim>\<open>None\<close> among numbers is read as NaN.
\<close>

datatype dtype = Int64 | UInt64 | Float64 | BoolDtype | Object

fun is_number :: "pyval \<Rightarrow> bool" where
  "is_number (PInt n) = (- (2 ^ 63) \<le> n \<and> n < 2 ^ 64)"
| "is_number (PFloat r) = True"
| "is_number PNaN = True"
| "is_number v = False"

fun is_int64 :: "pyval \<Rightarrow> bool" where
  "is_int64 (PInt n) = (- (2 ^ 63) \<le> n \<and> n < 2 ^ 63)"
| "is_int64 v = False"

fun is_uint64 :: "pyval \<Rightarrow> bool" where
  "is_uint64 (PInt n) = (0 \<le> n \<and> n < 2 ^ 64)"
| "is_uint64 v = False"

fun is_bool :: "pyval \<Rightarrow> bool" where
  "is_bool (PBool b) = True"
| "is_bool v = False"

text \<open>
  \<^verbatim>\<open>select_dtypes(include=[np.number])\<close> takes the int64, uint64 and float64 columns.
\<close>

definition is_numeric_col :: "pyval list \<Rightarrow> bool" where
  "is_numeric_col vs = (list_all (\<lambda>v. is_number v \<or> v = PNone) vs \<and> list_ex is_number vs)"

definition col_dtype :: "pyval list \<Rightarrow> dtype" where
  "col_dtype vs =
     (if vs \<noteq> [] \<and> list_all is_bool vs then BoolDtype
      else if is_numeric_col vs
      then (if list_all is_int64 vs then Int64
            else if list_all is_uint64 vs then UInt64
            else Float64)
      else Object)"

text \<open>
  The dtype of a row taken across columns (\<^verbatim>\<open>df.iloc[0]\<close>) and of the array
  \<^verbatim>\<open>df.values\<close>: the columns' dtype when they all have the same, object when a bool or
  object column stands beside another dtype, and float64 for any other mix of int64,
  uint64 and float64.
\<close>

definition common_dtype :: "dtype list \<Rightarrow> dtype" where
  "common_dtype ds =
     (case remdups ds of
        [] \<Rightarrow> Object
      | [d] \<Rightarrow> d
      | _ \<Rightarrow> (if BoolDtype \<in> set ds \<or> Object \<in> set ds then Object else Float64))"

text \<open>
  An integer converted to float64 is rounded to 53 significant bits, ties to the even
  neighbour. The integers of an int64 or uint64 column are below \<open>2^64\<close> in size, so at
  most 11 low bits are dropped: \<open>dropped_bits a\<close> counts them, and \<open>round_half_even k\<close>
  rounds to a multiple of \<open>2^k\<close>. Integers up to \<open>2^53\<close> in size are kept.
\<close>

definition dropped_bits :: "nat \<Rightarrow> nat" where
  "dropped_bits a = length (filter (\<lambda>j. 2 ^ (53 + j) \<le> a) [0..<11])"

definition round_half_even :: "nat \<Rightarrow> nat \<Rightarrow> nat" where
  "round_half_even k a =
     (let q = a div 2 ^ k; r = a mod 2 ^ k
      in (if 2 ^ k < 2 * r \<or> (2 * r = 2 ^ k \<and> odd q) then q + 1 else q) * 2 ^ k)"

definition float64_of_nat :: "nat \<Rightarrow> nat" where
  "float64_of_nat a = round_half_even (dropped_bits a) a"

definition float64_of_int :: "int \<Rightarrow> real" where
  "float64_of_int n =
     (if n < 0 then - real (float64_of_nat (nat (- n))) else real (float64_of_nat (nat n)))"

text \<open>
  A cell read at a dtype: an integer read as float64 is converted, every other cell is
  handed on as it is.
\<close>

fun astype :: "dtype \<Rightarrow> pyval \<Rightarrow> pyval" where
  "astype Float64 (PInt n) = PFloat (float64_of_int n)"
| "astype d v = v"

section \<open>Python dictionaries\<close>

text \<open>
  A \<^verbatim>\<open>dict\<close> is an association list in insertion order; \<open>map_of\<close> reads a key.
  \<open>dict_set\<close> is \<^verbatim>\<open>d[k] = v\<close>: an existing key keeps its position, a new key goes
  last.
\<close>

fun dict_set :: "(string \<times> pyval) list \<Rightarrow> string \<Rightarrow> pyval \<Rightarrow> (string \<times> pyval) list" where
  "dict_set [] k v = [(k, v)]"
| "dict_set ((k', v') # d) k v =
     (if k' = k then (k, v) # d else (k', v') # dict_set d k v)"

text \<open>The keys of a list of names, each once, in the order of first appearance.\<close>

definition uniq_keys :: "string list \<Rightarrow> string list" where
  "uniq_keys ks = rev (remdups (rev ks))"

section \<open>Data frames\<close>

text \<open>
  A frame has a number of rows and named columns, each a list of cells (one per row).
  \<open>DataFrame\<close> is \<^verbatim>\<open>pd.DataFrame(records)\<close> for a list of dictionaries: one row per
  record, one column per key, a key that a record lacks reads as NaN.
\<close>

record dataframe =
  nrows :: nat
  cols :: "(string \<times> pyval list) list"

definition record_cell :: "(string \<times> pyval) list \<Rightarrow> string \<Rightarrow> pyval" where
  "record_cell r c = (case map_of r c of Some v \<Rightarrow> v | None \<Rightarrow> PNaN)"

definition DataFrame :: "(string \<times> pyval) list list \<Rightarrow> dataframe" where
  "DataFrame records =
     \<lparr>nrows = length records,
      cols = map (\<lambda>c. (c, map (\<lambda>r. record_cell r c) records))
                 (uniq_keys (concat (map (map fst) records)))\<rparr>"

definition columns :: "dataframe \<Rightarrow> string list" where
  "columns df = map fst (cols df)"

definition frame_dtype :: "dataframe \<Rightarrow> dtype" where
  "frame_dtype df = common_dtype (map (\<lambda>(c, vs). col_dtype vs) (cols df))"

text \<open>
  \<^verbatim>\<open>df.iloc[0].loc[col]\<close>: \<^verbatim>\<open>df.iloc[0]\<close> is the first row as one Series, its cells
  converted to the dtype common to all columns of the frame; \<^verbatim>\<open>.loc[col]\<close> reads the
  cell under the label \<open>col\<close>.
\<close>

definition iloc0_loc :: "dataframe \<Rightarrow> string \<Rightarrow> exn + pyval" where
  "iloc0_loc df col =
     (if nrows df = 0 then Inl IndexError
      else (case map_of (cols df) col of
              None \<Rightarrow> Inl KeyError
            | Some [] \<Rightarrow> Inl IndexError
            | Some (v # vs) \<Rightarrow> Inr (astype (frame_dtype df) v)))"

text \<open>\<^verbatim>\<open>df[names]\<close>: the named columns in the order asked for; an unknown name raises.\<close>

fun select_cols :: "(string \<times> pyval list) list \<Rightarrow> string list \<Rightarrow> exn + (string \<times> pyval list) list" where
  "select_cols cs [] = Inr []"
| "select_cols cs (n # ns) =
     (case map_of cs n of
        None \<Rightarrow> Inl KeyError
      | Some vs \<Rightarrow>
          (case select_cols cs ns of
             Inl e \<Rightarrow> Inl e
           | Inr sel \<Rightarrow> Inr ((n, vs) # sel)))"

definition getitem_list :: "dataframe \<Rightarrow> string list \<Rightarrow> exn + dataframe" where
  "getitem_list df names =
     (case select_cols (cols df) names of
        Inl e \<Rightarrow> Inl e
      | Inr sel \<Rightarrow> Inr \<lparr>nrows = nrows df, cols = sel\<rparr>)"

text \<open>
  \<^verbatim>\<open>df.values\<close>: the cells row by row, as one array of the dtype common to all columns.
\<close>

definition values_of :: "dataframe \<Rightarrow> pyval list list" where
  "values_of df =
     map (\<lambda>i. map (\<lambda>(c, vs). astype (frame_dtype df) (vs ! i)) (cols df)) [0..<nrows df]"

text \<open>\<^verbatim>\<open>df.isnull().any().any()\<close>.\<close>

definition any_null :: "dataframe \<Rightarrow> bool" where
  "any_null df = list_ex (\<lambda>(c, vs). list_ex isnull vs) (cols df)"

section \<open>Column alignment (lines 79 to 90)\<close>

text \<open>\<^verbatim>\<open>base = {col: 0 for col in expected}\<close>.\<close>

definition base_zero :: "string list \<Rightarrow> (string \<times> pyval) list" where
  "base_zero expected = fold (\<lambda>col d. dict_set d col (PInt 0)) expected []"

text \<open>
  The loop \<^verbatim>\<open>for col in data.columns: if col in expected: base[col] = data.iloc[0].loc[col]\<close>,
  over the column labels still to visit.
\<close>

fun align_loop :: "dataframe \<Rightarrow> string list \<Rightarrow> string list \<Rightarrow> (string \<times> pyval) list \<Rightarrow> exn + (string \<times> pyval) list" where
  "align_loop data expected [] base = Inr base"
| "align_loop data expected (col # rest) base =
     (if col \<in> set expected
      then (case iloc0_loc data col of
              Inl e \<Rightarrow> Inl e
            | Inr v \<Rightarrow> align_loop data expected rest (dict_set base col v))
      else align_loop data expected rest base)"

text \<open>\<^verbatim>\<open>data_to_scale = pd.DataFrame([base])[expected]\<close> after the loop.\<close>

definition align_columns :: "string list \<Rightarrow> dataframe \<Rightarrow> exn + dataframe" where
  "align_columns expected data =
     (case align_loop data expected (columns data) (base_zero expected) of
        Inl e \<Rightarrow> Inl e
      | Inr base \<Rightarrow> getitem_list (DataFrame [base]) expected)"

text \<open>
  The cell the alignment leaves under a name of the schema: the payload's value as the
  row Series of the incoming frame holds it, or the integer 0.
\<close>

definition aligned_cell :: "(string \<times> pyval) list \<Rightarrow> string \<Rightarrow> pyval" where
  "aligned_cell features c =
     (case map_of features c of
        Some v \<Rightarrow> astype (frame_dtype (DataFrame [features])) v
      | None \<Rightarrow> PInt 0)"

text \<open>The cell of the incoming one-row frame as line 86 reads it.\<close>

definition row_cell :: "(string \<times> pyval) list \<Rightarrow> string \<Rightarrow> pyval" where
  "row_cell r col = astype (frame_dtype (DataFrame [r])) (record_cell r col)"

section \<open>The loaded artifacts (lines 25 to 31)\<close>

text \<open>
  The scaler and the model are opaque objects read with joblib. What the handler uses of
  them: the optional attribute \<^verbatim>\<open>feature_names_in_\<close> (\<open>None\<close> when
  \<^verbatim>\<open>hasattr\<close> is false), the scaler's optional \<^verbatim>\<open>mean_\<close> (absent, \<^verbatim>\<open>None\<close>, or
  an array of floats, an entry \<open>None\<close> standing for NaN), \<^verbatim>\<open>transform\<close>,
  \<^verbatim>\<open>predict\<close> and the optional \<^verbatim>\<open>predict_proba\<close> and
  \<^verbatim>\<open>decision_function\<close>. A method call returns a value or raises. The results of
  \<open>predict\<close>, \<open>predict_proba\<close> and \<open>decision_function\<close> are read after the
  handler's own indexing and conversion: \<^verbatim>\<open>int(model.predict(x)[0])\<close>,
  \<^verbatim>\<open>float(model.predict_proba(x)[0][1])\<close>, \<^verbatim>\<open>float(model.decision_function(x)[0])\<close>.
\<close>

datatype mean_attr = NoMeanAttr | MeanIsNone | MeanArray "real option list"

record scaler_obj =
  s_feature_names_in :: "string list option"
  s_mean :: mean_attr
  transform :: "dataframe \<Rightarrow> exn + pyval list list"

record model_obj =
  m_feature_names_in :: "string list option"
  predict :: "pyval list list \<Rightarrow> exn + int"
  predict_proba :: "(pyval list list \<Rightarrow> exn + pyfloat) option"
  decision_function :: "(pyval list list \<Rightarrow> exn + pyfloat) option"

record artifacts =
  model :: "model_obj option"
  scaler :: "scaler_obj option"

text \<open>
  Start-up: both globals start as \<^verbatim>\<open>None\<close>; one \<^verbatim>\<open>try\<close> loads the model and then
  the scaler, so a model that fails to load leaves both absent, and a scaler that fails
  to load leaves the model present.
\<close>

definition startup :: "exn + model_obj \<Rightarrow> exn + scaler_obj \<Rightarrow> artifacts" where
  "startup load_model load_scaler =
     (case load_model of
        Inl e \<Rightarrow> \<lparr>model = None, scaler = None\<rparr>
      | Inr m \<Rightarrow>
          (case load_scaler of
             Inl e \<Rightarrow> \<lparr>model = Some m, scaler = None\<rparr>
           | Inr s \<Rightarrow> \<lparr>model = Some m, scaler = Some s\<rparr>))"

section \<open>Schema resolution (lines 73 to 77)\<close>

definition model_names :: "artifacts \<Rightarrow> string list option" where
  "model_names env = (case model env of None \<Rightarrow> None | Some m \<Rightarrow> m_feature_names_in m)"

definition resolve_expected :: "artifacts \<Rightarrow> string list option" where
  "resolve_expected env =
     (case scaler env of
        None \<Rightarrow> model_names env
      | Some s \<Rightarrow>
          (case s_feature_names_in s of
             None \<Rightarrow> model_names env
           | Some names \<Rightarrow> Some names))"

section \<open>Imputation (lines 92 to 119)\<close>

text \<open>
  \<^verbatim>\<open>Series.fillna(fill)\<close> replaces the missing cells by \<open>fill\<close>. A fill value that
  is itself NaN leaves them missing, as NaN.
\<close>

definition fillna_cell :: "pyval \<Rightarrow> pyval \<Rightarrow> pyval" where
  "fillna_cell fill v = (if isnull v then fill else v)"

definition series_fillna :: "pyval list \<Rightarrow> pyval \<Rightarrow> pyval list" where
  "series_fillna vs fill = map (fillna_cell fill) vs"

text \<open>\<^verbatim>\<open>df.fillna(value=fill_values)\<close> with a dictionary from column labels to values.\<close>

definition fillna_dict :: "dataframe \<Rightarrow> (string \<times> pyval) list \<Rightarrow> dataframe" where
  "fillna_dict df fill_values =
     df\<lparr>cols := map (\<lambda>(c, vs). (c, case map_of fill_values c of
                                        None \<Rightarrow> vs
                                      | Some fill \<Rightarrow> series_fillna vs fill))
                     (cols df)\<rparr>"

text \<open>
  \<^verbatim>\<open>float(scaler.mean_[i])\<close>: a missing attribute, \<^verbatim>\<open>None\<close> and an index out of
  range raise.
\<close>

fun mean_item :: "mean_attr \<Rightarrow> nat \<Rightarrow> exn + pyval" where
  "mean_item NoMeanAttr i = Inl AttributeError"
| "mean_item MeanIsNone i = Inl TypeError"
| "mean_item (MeanArray ms) i =
     (if i < length ms
      then (case ms ! i of None \<Rightarrow> Inr PNaN | Some r \<Rightarrow> Inr (PFloat r))
      else Inl IndexError)"

text \<open>
  \<^verbatim>\<open>{col: float(scaler.mean_[i]) for i, col in enumerate(expected)}\<close>, from index
  \<open>i\<close> on, into the dictionary built so far.
\<close>

fun fill_values_from :: "mean_attr \<Rightarrow> nat \<Rightarrow> string list \<Rightarrow> (string \<times> pyval) list \<Rightarrow> exn + (string \<times> pyval) list" where
  "fill_values_from mu i [] d = Inr d"
| "fill_values_from mu i (col # rest) d =
     (case mean_item mu i of
        Inl e \<Rightarrow> Inl e
      | Inr v \<Rightarrow> fill_values_from mu (Suc i) rest (dict_set d col v))"

text \<open>
  Lines 95 to 100. The \<^verbatim>\<open>try\<close> ... \<^verbatim>\<open>except Exception: pass\<close> leaves the frame as
  it was when building the fill values raises.
\<close>

definition impute_mean :: "artifacts \<Rightarrow> string list option \<Rightarrow> dataframe \<Rightarrow> dataframe" where
  "impute_mean env expected df =
     (case scaler env of
        None \<Rightarrow> df
      | Some s \<Rightarrow>
          (if s_mean s = NoMeanAttr then df
           else (case expected of
                   None \<Rightarrow> df
                 | Some ex \<Rightarrow>
                     (case fill_values_from (s_mean s) 0 ex [] of
                        Inl e \<Rightarrow> df
                      | Inr fill_values \<Rightarrow> fillna_dict df fill_values))))"

definition num_cols :: "dataframe \<Rightarrow> string list" where
  "num_cols df = map fst (filter (\<lambda>(c, vs). is_numeric_col vs) (cols df))"

definition obj_cols :: "dataframe \<Rightarrow> string list" where
  "obj_cols df = map fst (filter (\<lambda>(c, vs). \<not> is_numeric_col vs) (cols df))"

text \<open>
  \<^verbatim>\<open>df[c]\<close> read as a Series and tested with \<^verbatim>\<open>if df[c].isnull().any()\<close>. When the
  label occurs more than once pandas returns a frame, and the truth value of its
  \<^verbatim>\<open>.isnull().any()\<close> raises ValueError.
\<close>

definition getitem :: "dataframe \<Rightarrow> string \<Rightarrow> exn + pyval list" where
  "getitem df c =
     (case filter (\<lambda>(n, vs). n = c) (cols df) of
        [] \<Rightarrow> Inl KeyError
      | [(n, vs)] \<Rightarrow> Inr vs
      | _ \<Rightarrow> Inl ValueError)"

text \<open>\<^verbatim>\<open>df[c] = vs\<close>: replaces the column, or appends a new one.\<close>

definition setitem :: "dataframe \<Rightarrow> string \<Rightarrow> pyval list \<Rightarrow> dataframe" where
  "setitem df c vs =
     (if c \<in> set (columns df)
      then df\<lparr>cols := map (\<lambda>(n, xs). if n = c then (n, vs) else (n, xs)) (cols df)\<rparr>
      else df\<lparr>cols := cols df @ [(c, vs)]\<rparr>)"

definition dropna :: "pyval list \<Rightarrow> pyval list" where
  "dropna vs = filter (\<lambda>v. \<not> isnull v) vs"

fun num_values :: "pyval list \<Rightarrow> real list" where
  "num_values [] = []"
| "num_values (PInt n # vs) = real_of_int n # num_values vs"
| "num_values (PFloat r # vs) = r # num_values vs"
| "num_values (v # vs) = num_values vs"

definition median :: "real list \<Rightarrow> real" where
  "median xs =
     (let s = sort xs; n = length s
      in if odd n then s ! (n div 2) else (s ! (n div 2 - 1) + s ! (n div 2)) / 2)"

text \<open>
  \<^verbatim>\<open>non_null.median() if not non_null.empty else 0\<close> for
  \<^verbatim>\<open>non_null = df[c].dropna()\<close>, as the float64 column that has the missing cell
  stores it.
\<close>

definition median_or_zero :: "pyval list \<Rightarrow> pyval" where
  "median_or_zero vs =
     (let non_null = dropna vs
      in if non_null \<noteq> [] then PFloat (median (num_values non_null)) else PFloat 0)"

text \<open>The body of the loop over the numeric columns (lines 106 to 109).\<close>

definition fill_numeric :: "string \<Rightarrow> dataframe \<Rightarrow> exn + dataframe" where
  "fill_numeric c df =
     (case getitem df c of
        Inl e \<Rightarrow> Inl e
      | Inr vs \<Rightarrow>
          (if list_ex isnull vs
           then Inr (setitem df c (series_fillna vs (median_or_zero vs)))
           else Inr df))"

text \<open>
  \<^verbatim>\<open>s.mode()[0]\<close>: the most frequent of the values that are not missing; with none,
  the mode is empty and the index raises. Among equally frequent values the first one seen
  is taken (pandas sorts them when they can be compared; with a single row there is at
  most one).
\<close>

definition most_frequent :: "pyval list \<Rightarrow> pyval \<Rightarrow> pyval" where
  "most_frequent vs v0 =
     fold (\<lambda>v best. if count_list vs best < count_list vs v then v else best) vs v0"

definition series_mode0 :: "pyval list \<Rightarrow> exn + pyval" where
  "series_mode0 vs =
     (case dropna vs of
        [] \<Rightarrow> Inl KeyError
      | v # rest \<Rightarrow> Inr (most_frequent (v # rest) v))"

text \<open>
  The body of the loop over the other columns (lines 113 to 119): the mode when it can
  be computed, and the empty string from the \<^verbatim>\<open>except\<close> branch otherwise.
\<close>

definition mode_or_empty :: "pyval list \<Rightarrow> pyval" where
  "mode_or_empty vs = (case series_mode0 vs of Inl e \<Rightarrow> PStr [] | Inr m \<Rightarrow> m)"

definition fill_object :: "string \<Rightarrow> dataframe \<Rightarrow> exn + dataframe" where
  "fill_object c df =
     (case getitem df c of
        Inl e \<Rightarrow> Inl e
      | Inr vs \<Rightarrow>
          (if list_ex isnull vs
           then Inr (setitem df c (series_fillna vs (mode_or_empty vs)))
           else Inr df))"

text \<open>A \<^verbatim>\<open>for\<close> loop over column labels whose body may raise.\<close>

fun for_each :: "(string \<Rightarrow> dataframe \<Rightarrow> exn + dataframe) \<Rightarrow> string list \<Rightarrow> dataframe \<Rightarrow> exn + dataframe" where
  "for_each step [] df = Inr df"
| "for_each step (c # cs) df =
     (case step c df of
        Inl e \<Rightarrow> Inl e
      | Inr df' \<Rightarrow> for_each step cs df')"

text \<open>Lines 104 to 119: the numeric columns first, then the columns that are not numeric.\<close>

definition impute_fallback :: "dataframe \<Rightarrow> exn + dataframe" where
  "impute_fallback df =
     (case for_each fill_numeric (num_cols df) df of
        Inl e \<Rightarrow> Inl e
      | Inr df1 \<Rightarrow> for_each fill_object (obj_cols df1) df1)"

text \<open>Lines 93 to 119.\<close>

definition impute :: "artifacts \<Rightarrow> string list option \<Rightarrow> dataframe \<Rightarrow> exn + dataframe" where
  "impute env expected df =
     (if any_null df
      then (let df1 = impute_mean env expected df
            in if any_null df1 then impute_fallback df1 else Inr df1)
      else Inr df)"

section \<open>The handler (lines 63 to 148)\<close>

text \<open>
  Lines 69 to 90: the frame built from the one-element list \<^verbatim>\<open>[features]\<close>, aligned to
  the expected names when they are known and taken as it is otherwise.
\<close>

definition aligned :: "artifacts \<Rightarrow> (string \<times> pyval) list \<Rightarrow> exn + dataframe" where
  "aligned env features =
     (let data = DataFrame [features]
      in case resolve_expected env of
           Some expected \<Rightarrow> align_columns expected data
         | None \<Rightarrow> Inr data)"

text \<open>
  Lines 69 to 119: the frame \<^verbatim>\<open>data_to_scale\<close> as it stands when line 121 is reached,
  for the dictionary \<open>features\<close> of the request.
\<close>

definition data_to_scale :: "artifacts \<Rightarrow> (string \<times> pyval) list \<Rightarrow> exn + dataframe" where
  "data_to_scale env features =
     (case aligned env features of
        Inl e \<Rightarrow> Inl e
      | Inr df \<Rightarrow> impute env (resolve_expected env) df)"

text \<open>Lines 121 to 124.\<close>

definition scale :: "artifacts \<Rightarrow> dataframe \<Rightarrow> exn + pyval list list" where
  "scale env df =
     (case scaler env of
        Some s \<Rightarrow> transform s df
      | None \<Rightarrow> Inr (values_of df))"

text \<open>
  Lines 129 to 141. Each of the two attempts sits in its own \<^verbatim>\<open>try\<close> whose
  \<^verbatim>\<open>except Exception\<close> sets the probability to \<^verbatim>\<open>None\<close>. The logistic transform
  \<^verbatim>\<open>1.0 / (1.0 + np.exp(-score))\<close> of a finite score is taken over the reals; NaN gives
  NaN, and at the infinities \<^verbatim>\<open>np.exp\<close> gives 0 or infinity without raising.
\<close>

definition proba_attempt :: "model_obj \<Rightarrow> pyval list list \<Rightarrow> pyfloat option" where
  "proba_attempt m x =
     (case predict_proba m of
        None \<Rightarrow> None
      | Some f \<Rightarrow> (case f x of Inl e \<Rightarrow> None | Inr p \<Rightarrow> Some p))"

fun sigmoid :: "pyfloat \<Rightarrow> pyfloat" where
  "sigmoid (Finite score) = Finite (1 / (1 + exp (- score)))"
| "sigmoid NotANumber = NotANumber"
| "sigmoid PlusInf = Finite 1"
| "sigmoid MinusInf = Finite 0"

definition decision_attempt :: "model_obj \<Rightarrow> pyval list list \<Rightarrow> pyfloat option" where
  "decision_attempt m x =
     (case decision_function m of
        None \<Rightarrow> None
      | Some g \<Rightarrow> (case g x of Inl e \<Rightarrow> None | Inr score \<Rightarrow> Some (sigmoid score)))"

definition probability :: "model_obj \<Rightarrow> pyval list list \<Rightarrow> pyfloat option" where
  "probability m x =
     (case proba_attempt m x of
        Some p \<Rightarrow> Some p
      | None \<Rightarrow> decision_attempt m x)"

text \<open>Lines 127 to 146, for a model that is present.\<close>

definition respond :: "model_obj \<Rightarrow> pyval list list \<Rightarrow> exn + body" where
  "respond m x =
     (case predict m x of
        Inl e \<Rightarrow> Inl e
      | Inr prediction \<Rightarrow> Inr (PredictionResult prediction (probability m x)))"

text \<open>The body of the outer \<^verbatim>\<open>try\<close> (lines 66 to 146), on the decoded payload.\<close>

definition predict_body :: "artifacts \<Rightarrow> pyval \<Rightarrow> exn + body" where
  "predict_body env payload =
     (case payload of
        PDict features \<Rightarrow>
          (case data_to_scale env features of
             Inl e \<Rightarrow> Inl e
           | Inr df \<Rightarrow>
               (case scale env df of
                  Inl e \<Rightarrow> Inl e
                | Inr data_scaled \<Rightarrow>
                    (case model env of
                       None \<Rightarrow> Inr (ErrorOnly ''model not loaded'')
                     | Some m \<Rightarrow> respond m data_scaled)))
      | _ \<Rightarrow> Inl (HTTPException 400 ''payload must be a JSON object of feature:value pairs''))"

text \<open>
  The handler function on \<^verbatim>\<open>payload.__root__\<close>: the outer
  \<^verbatim>\<open>except Exception as e\<close> (lines 147 and 148) turns every exception of the body,
  the \<^verbatim>\<open>HTTPException\<close> of line 68 included, into a returned dictionary.
\<close>

definition predict_default :: "artifacts \<Rightarrow> pyval \<Rightarrow> outcome" where
  "predict_default env payload =
     (case predict_body env payload of
        Inr b \<Rightarrow> Returned b
      | Inl e \<Rightarrow> Returned (ErrorTrace e))"

section \<open>Request validation and the predict operation (lines 59 to 64)\<close>

text \<open>
  The handler's parameter is the pydantic model \<^verbatim>\<open>AnyDict\<close> with
  \<^verbatim>\<open>__root__: Dict[str, Any]\<close>, so the framework validates the decoded body before
  the handler is entered. A dictionary is taken as it is. Any other value is given to
  Python's \<^verbatim>\<open>dict(...)\<close>, and a \<^verbatim>\<open>TypeError\<close> or \<^verbatim>\<open>ValueError\<close> there rejects the body;
  \<^verbatim>\<open>null\<close> is rejected as well. \<^verbatim>\<open>dict\<close> accepts a sequence whose elements each have
  exactly two items, the first one hashable: a two-element array, a two-character string, or
  a dictionary with two keys (which yields its keys).
\<close>

fun hashable :: "pyval \<Rightarrow> bool" where
  "hashable (PList xs) = False"
| "hashable (PDict d) = False"
| "hashable v = True"

fun pair_of :: "pyval \<Rightarrow> exn + (pyval \<times> pyval)" where
  "pair_of (PList [k, v]) = (if hashable k then Inr (k, v) else Inl TypeError)"
| "pair_of (PList xs) = Inl ValueError"
| "pair_of (PStr [a, b]) = Inr (PStr [a], PStr [b])"
| "pair_of (PStr s) = Inl ValueError"
| "pair_of (PDict [(k1, v1), (k2, v2)]) = Inr (PStr k1, PStr k2)"
| "pair_of (PDict d) = Inl ValueError"
| "pair_of v = Inl TypeError"

text \<open>
  Keys of a Python dictionary are compared with \<^verbatim>\<open>==\<close>: booleans, integers and floats
  by their numeric value, strings with strings, and a NaN equals nothing. An assignment to
  an equal key keeps the key that is there and replaces its value.
\<close>

fun key_number :: "pyval \<Rightarrow> real option" where
  "key_number (PBool b) = Some (if b then 1 else 0)"
| "key_number (PInt n) = Some (real_of_int n)"
| "key_number (PFloat r) = Some r"
| "key_number v = None"

definition key_eq :: "pyval \<Rightarrow> pyval \<Rightarrow> bool" where
  "key_eq a b =
     (case key_number a of
        Some x \<Rightarrow> (case key_number b of Some y \<Rightarrow> x = y | None \<Rightarrow> False)
      | None \<Rightarrow> (case key_number b of Some y \<Rightarrow> False | None \<Rightarrow> a = b \<and> a \<noteq> PNaN))"

fun pydict_set :: "(pyval \<times> pyval) list \<Rightarrow> pyval \<Rightarrow> pyval \<Rightarrow> (pyval \<times> pyval) list" where
  "pydict_set [] k v = [(k, v)]"
| "pydict_set ((k', v') # d) k v =
     (if key_eq k' k then (k', v) # d else (k', v') # pydict_set d k v)"

fun pydict_from :: "pyval list \<Rightarrow> (pyval \<times> pyval) list \<Rightarrow> exn + (pyval \<times> pyval) list" where
  "pydict_from [] d = Inr d"
| "pydict_from (x # xs) d =
     (case pair_of x of
        Inl e \<Rightarrow> Inl e
      | Inr (k, v) \<Rightarrow> pydict_from xs (pydict_set d k v))"

fun py_dict :: "pyval \<Rightarrow> exn + (pyval \<times> pyval) list" where
  "py_dict (PDict kvs) = Inr (map (\<lambda>(k, v). (PStr k, v)) kvs)"
| "py_dict (PList xs) = pydict_from xs []"
| "py_dict (PStr s) = (if s = [] then Inr [] else Inl ValueError)"
| "py_dict v = Inl TypeError"

text \<open>
  The keys are then validated as \<^verbatim>\<open>str\<close>: a string is kept, an integer, float or boolean
  is replaced by its \<^verbatim>\<open>str(...)\<close>, anything else is an error. Python's rendering of a
  finite float is the parameter \<open>fmt\<close>. The values (\<^verbatim>\<open>Any\<close>) are kept.
\<close>

fun digits :: "nat \<Rightarrow> string" where
  "digits n = (if n < 10 then [char_of (48 + n)] else digits (n div 10) @ [char_of (48 + n mod 10)])"

declare digits.simps [simp del]

definition str_int :: "int \<Rightarrow> string" where
  "str_int n = (if n < 0 then CHR ''-'' # digits (nat (- n)) else digits (nat n))"

fun key_str :: "(real \<Rightarrow> string) \<Rightarrow> pyval \<Rightarrow> exn + string" where
  "key_str fmt (PStr s) = Inr s"
| "key_str fmt (PInt n) = Inr (str_int n)"
| "key_str fmt (PBool b) = Inr (if b then ''True'' else ''False'')"
| "key_str fmt (PFloat r) = Inr (fmt r)"
| "key_str fmt PNaN = Inr ''nan''"
| "key_str fmt v = Inl TypeError"

fun validate_items :: "(real \<Rightarrow> string) \<Rightarrow> (pyval \<times> pyval) list \<Rightarrow> (string \<times> pyval) list \<Rightarrow> exn + (string \<times> pyval) list" where
  "validate_items fmt [] d = Inr d"
| "validate_items fmt ((k, v) # rest) d =
     (case key_str fmt k of
        Inl e \<Rightarrow> Inl e
      | Inr s \<Rightarrow> validate_items fmt rest (dict_set d s v))"

definition validate_AnyDict :: "(real \<Rightarrow> string) \<Rightarrow> pyval \<Rightarrow> exn + (string \<times> pyval) list" where
  "validate_AnyDict fmt request_body =
     (case py_dict request_body of
        Inl e \<Rightarrow> Inl e
      | Inr items \<Rightarrow> validate_items fmt items [])"

text \<open>
  The predict operation, \<^verbatim>\<open>POST /predict\<close> on a decoded JSON body: a body that fails
  validation is answered by the framework with status 422 and the handler is not
  entered; otherwise the handler runs on the validated dictionary.
\<close>

datatype reply = ValidationError exn | Handled outcome

definition predict_operation :: "(real \<Rightarrow> string) \<Rightarrow> artifacts \<Rightarrow> pyval \<Rightarrow> reply" where
  "predict_operation fmt env request_body =
     (case validate_AnyDict fmt request_body of
        Inl e \<Rightarrow> ValidationError e
      | Inr features \<Rightarrow> Handled (predict_default env (PDict features)))"

fun reply_status :: "reply \<Rightarrow> nat" where
  "reply_status (ValidationError e) = 422"
| "reply_status (Handled out) = http_status out"



section \<open>What the fallback loops do to a column\<close>

text \<open>
  The cells a column holds after the body of the numeric loop, and after the body of the
  loop over the other columns; \<open>on_label\<close> and \<open>on_labels\<close> apply a change to the
  columns under one label, or under a set of labels, and \<open>fill_col\<close> is the change the
  two loops together make to a column.
\<close>

definition fill_num_cells :: "pyval list \<Rightarrow> pyval list" where
  "fill_num_cells vs = (if list_ex isnull vs then series_fillna vs (median_or_zero vs) else vs)"

definition fill_obj_cells :: "pyval list \<Rightarrow> pyval list" where
  "fill_obj_cells vs = (if list_ex isnull vs then series_fillna vs (mode_or_empty vs) else vs)"

definition on_label :: "string \<Rightarrow> (pyval list \<Rightarrow> pyval list) \<Rightarrow> string \<times> pyval list \<Rightarrow> string \<times> pyval list" where
  "on_label c f col = (if fst col = c then (fst col, f (snd col)) else col)"

definition on_labels :: "string set \<Rightarrow> (pyval list \<Rightarrow> pyval list) \<Rightarrow> string \<times> pyval list \<Rightarrow> string \<times> pyval list" where
  "on_labels C f col = (if fst col \<in> C then (fst col, f (snd col)) else col)"

definition fill_col :: "string \<times> pyval list \<Rightarrow> string \<times> pyval list" where
  "fill_col col = (fst col, if is_numeric_col (snd col) then fill_num_cells (snd col)
                            else fill_obj_cells (snd col))"

section \<open>Single-row frames\<close>

text \<open>
  A frame of one row, and what the fallback is claimed to do to a column of such a frame:
  a missing cell becomes 0 in a numeric column and the empty string in any other.
\<close>

definition single_row :: "dataframe \<Rightarrow> bool" where
  "single_row df = (nrows df = 1 \<and> list_all (\<lambda>col. length (snd col) = 1) (cols df))"

definition degenerate_fill :: "string \<times> pyval list \<Rightarrow> string \<times> pyval list" where
  "degenerate_fill col =
     (fst col,
      if list_ex isnull (snd col)
      then (if is_numeric_col (snd col) then [PFloat 0] else [PStr []])
      else snd col)"

section \<open>Example artifacts and payloads\<close>

text \<open>
  A scaler fitted on income, age and debt whose stored training mean for debt is 1200;
  its transform standardises nothing and hands the cells on. A classifier that, like a
  scikit-learn estimator, raises on a cell that is not a number, and otherwise predicts
  class 1 with probability 3/4; a margin classifier with a decision function and no
  class probabilities; a classifier whose only probability method raises; a classifier
  whose class probability is NaN; and a classifier on the single feature \<open>a\<close> that
  predicts class 1 when the value it is given exceeds \<open>2^53\<close>.
\<close>

definition demo_scaler :: scaler_obj where
  "demo_scaler =
     \<lparr>s_feature_names_in = Some [''income'', ''age'', ''debt''],
      s_mean = MeanArray [Some 40000, Some 30, Some 1200],
      transform = (\<lambda>df. Inr (values_of df))\<rparr>"

fun number_value :: "pyval \<Rightarrow> real option" where
  "number_value (PInt n) = Some (real_of_int n)"
| "number_value (PFloat r) = Some r"
| "number_value v = None"

definition all_numbers :: "pyval list list \<Rightarrow> bool" where
  "all_numbers x = list_all (list_all (\<lambda>v. number_value v \<noteq> None)) x"

definition strict_model :: model_obj where
  "strict_model =
     \<lparr>m_feature_names_in = Some [''income''],
      predict = (\<lambda>x. if all_numbers x then Inr 1 else Inl (ArtifactError ''could not convert string to float'')),
      predict_proba = Some (\<lambda>x. if all_numbers x then Inr (Finite (3 / 4)) else Inl (ArtifactError ''could not convert string to float'')),
      decision_function = None\<rparr>"

definition margin_model :: model_obj where
  "margin_model =
     \<lparr>m_feature_names_in = None,
      predict = (\<lambda>x. Inr 1),
      predict_proba = None,
      decision_function = Some (\<lambda>x. Inr (Finite 0))\<rparr>"

definition bare_model :: model_obj where
  "bare_model =
     \<lparr>m_feature_names_in = None,
      predict = (\<lambda>x. Inr 0),
      predict_proba = Some (\<lambda>x. Inl (ArtifactError ''predict_proba failed'')),
      decision_function = None\<rparr>"

definition nan_model :: model_obj where
  "nan_model =
     \<lparr>m_feature_names_in = None,
      predict = (\<lambda>x. Inr 1),
      predict_proba = Some (\<lambda>x. Inr NotANumber),
      decision_function = None\<rparr>"

definition threshold_model :: model_obj where
  "threshold_model =
     \<lparr>m_feature_names_in = Some [''a''],
      predict = (\<lambda>x. case x of
                        [[v]] \<Rightarrow> (case number_value v of
                                     Some r \<Rightarrow> Inr (if 9007199254740992 < r then 1 else 0)
                                   | None \<Rightarrow> Inl (ArtifactError ''not a number''))
                      | _ \<Rightarrow> Inl (ArtifactError ''expected one feature'')),
      predict_proba = None,
      decision_function = None\<rparr>"

section \<open>Facts about dictionaries and frames\<close>

lemma map_of_dict_set: "map_of (dict_set d k v) = (map_of d)(k \<mapsto> v)"
  by (induction d) (auto simp: fun_eq_iff)

lemma set_uniq_keys: "set (uniq_keys ks) = set ks"
  by (simp add: uniq_keys_def)

lemma distinct_uniq_keys: "distinct (uniq_keys ks)"
  by (simp add: uniq_keys_def)

lemma uniq_keys_distinct: "distinct ks \<Longrightarrow> uniq_keys ks = ks"
  by (simp add: uniq_keys_def distinct_remdups_id)

lemma fst_dict_set: "fst ` set (dict_set d k v) = insert k (fst ` set d)"
  by (simp add: dom_map_of_conv_image_fst [symmetric] map_of_dict_set)

lemma distinct_dict_set: "distinct (map fst d) \<Longrightarrow> distinct (map fst (dict_set d k v))"
  by (induction d) (auto simp: fst_dict_set)

lemma map_of_tabulate:
  "map_of (map (\<lambda>c. (c, f c)) ks) c = (if c \<in> set ks then Some (f c) else None)"
  by (induction ks) auto

lemma DataFrame_single:
  "DataFrame [r] = \<lparr>nrows = 1, cols = map (\<lambda>c. (c, [record_cell r c])) (uniq_keys (map fst r))\<rparr>"
  by (simp add: DataFrame_def)

lemma iloc0_loc_single:
  "iloc0_loc (DataFrame [r]) col =
     (if col \<in> fst ` set r then Inr (row_cell r col) else Inl KeyError)"
  by (simp add: iloc0_loc_def row_cell_def DataFrame_single map_of_tabulate set_uniq_keys)

lemma record_cell_key:
  "col \<in> fst ` set r \<Longrightarrow> map_of r col = Some (record_cell r col)"
  by (auto simp: record_cell_def dom_map_of_conv_image_fst [symmetric] split: option.splits)

lemma map_of_fold_dict_set:
  "map_of (fold (\<lambda>col d. dict_set d col z) ks d0) c =
     (if c \<in> set ks then Some z else map_of d0 c)"
  by (induction ks arbitrary: d0) (auto simp: map_of_dict_set)

lemma map_of_base_zero:
  "map_of (base_zero expected) c = (if c \<in> set expected then Some (PInt 0) else None)"
  by (simp add: base_zero_def map_of_fold_dict_set)

lemma keys_base_zero: "fst ` set (base_zero expected) = set expected"
proof -
  have "dom (map_of (base_zero expected)) = set expected"
    by (auto simp: dom_def map_of_base_zero)
  then show ?thesis by (simp add: dom_map_of_conv_image_fst)
qed

lemma align_loop_result:
  "set cs \<subseteq> fst ` set r \<Longrightarrow>
   \<exists>base'. align_loop (DataFrame [r]) expected cs base = Inr base' \<and>
     (\<forall>c. map_of base' c = (if c \<in> set cs \<and> c \<in> set expected then Some (row_cell r c) else map_of base c)) \<and>
     fst ` set base' = fst ` set base \<union> (set cs \<inter> set expected)"
proof (induction cs arbitrary: base)
  case Nil
  then show ?case by simp
next
  case (Cons col rest)
  show ?case
  proof (cases "col \<in> set expected")
    case False
    from Cons.prems have sub: "set rest \<subseteq> fst ` set r" by auto
    obtain base' where
      r: "align_loop (DataFrame [r]) expected rest base = Inr base'"
      and m: "\<forall>c. map_of base' c = (if c \<in> set rest \<and> c \<in> set expected then Some (row_cell r c)
                 else map_of base c)"
      and d: "fst ` set base' = fst ` set base \<union> (set rest \<inter> set expected)"
      using Cons.IH [OF sub] by blast
    have "align_loop (DataFrame [r]) expected (col # rest) base = Inr base'"
      using False r by simp
    moreover have "\<forall>c. map_of base' c =
        (if c \<in> set (col # rest) \<and> c \<in> set expected then Some (row_cell r c) else map_of base c)"
      using m False by auto
    moreover have "fst ` set base' = fst ` set base \<union> (set (col # rest) \<inter> set expected)"
      using d False by auto
    ultimately show ?thesis by blast
  next
    case True
    from Cons.prems have k: "col \<in> fst ` set r" and sub: "set rest \<subseteq> fst ` set r" by auto
    obtain base' where
      r: "align_loop (DataFrame [r]) expected rest (dict_set base col (row_cell r col)) = Inr base'"
      and m: "\<forall>c. map_of base' c = (if c \<in> set rest \<and> c \<in> set expected then Some (row_cell r c)
                 else map_of (dict_set base col (row_cell r col)) c)"
      and d: "fst ` set base' = fst ` set (dict_set base col (row_cell r col)) \<union> (set rest \<inter> set expected)"
      using Cons.IH [OF sub] by blast
    have "align_loop (DataFrame [r]) expected (col # rest) base = Inr base'"
      using True k r by (simp add: iloc0_loc_single)
    moreover have "\<forall>c. map_of base' c =
        (if c \<in> set (col # rest) \<and> c \<in> set expected then Some (row_cell r c) else map_of base c)"
      using m True by (auto simp: map_of_dict_set)
    moreover have "fst ` set base' = fst ` set base \<union> (set (col # rest) \<inter> set expected)"
      using d True by (auto simp: fst_dict_set)
    ultimately show ?thesis by blast
  qed
qed

lemma select_cols_total:
  "set ns \<subseteq> fst ` set cs \<Longrightarrow> select_cols cs ns = Inr (map (\<lambda>n. (n, the (map_of cs n))) ns)"
proof (induction ns)
  case Nil
  then show ?case by simp
next
  case (Cons n ns)
  then have "n \<in> dom (map_of cs)" by (simp add: dom_map_of_conv_image_fst)
  then obtain vs where "map_of cs n = Some vs" by auto
  with Cons show ?case by simp
qed

lemma align_columns_single:
  "align_columns expected (DataFrame [features]) =
     Inr \<lparr>nrows = 1, cols = map (\<lambda>c. (c, [aligned_cell features c])) expected\<rparr>"
proof -
  have sub: "set (columns (DataFrame [features])) \<subseteq> fst ` set features"
    by (simp add: columns_def DataFrame_single set_uniq_keys comp_def)
  have cols_eq: "set (columns (DataFrame [features])) = fst ` set features"
    by (simp add: columns_def DataFrame_single set_uniq_keys comp_def)
  obtain base where
    r: "align_loop (DataFrame [features]) expected (columns (DataFrame [features])) (base_zero expected) = Inr base"
    and m: "\<forall>c. map_of base c = (if c \<in> set (columns (DataFrame [features])) \<and> c \<in> set expected
               then Some (row_cell features c) else map_of (base_zero expected) c)"
    and d: "fst ` set base = fst ` set (base_zero expected) \<union> (set (columns (DataFrame [features])) \<inter> set expected)"
    using align_loop_result [OF sub] by blast
  have keys: "fst ` set base = set expected"
    using d by (auto simp: keys_base_zero)
  have cell: "record_cell base c = aligned_cell features c" if "c \<in> set expected" for c
  proof (cases "c \<in> fst ` set features")
    case True
    then obtain v where "map_of features c = Some v"
      using record_cell_key by blast
    then show ?thesis
      using m that cols_eq True by (simp add: record_cell_def aligned_cell_def row_cell_def)
  next
    case False
    then have "map_of features c = None"
      by (simp add: map_of_eq_None_iff)
    then show ?thesis
      using m that cols_eq False by (simp add: record_cell_def aligned_cell_def map_of_base_zero)
  qed
  have sel: "select_cols (cols (DataFrame [base])) expected =
      Inr (map (\<lambda>c. (c, [aligned_cell features c])) expected)"
  proof -
    have "set expected \<subseteq> fst ` set (cols (DataFrame [base]))"
      by (simp add: DataFrame_single set_uniq_keys image_image keys)
    then have "select_cols (cols (DataFrame [base])) expected =
        Inr (map (\<lambda>n. (n, the (map_of (cols (DataFrame [base])) n))) expected)"
      by (rule select_cols_total)
    also have "map (\<lambda>n. (n, the (map_of (cols (DataFrame [base])) n))) expected =
        map (\<lambda>c. (c, [aligned_cell features c])) expected"
      using keys cell by (auto simp: DataFrame_single map_of_tabulate set_uniq_keys)
    finally show ?thesis .
  qed
  show ?thesis
    using r sel by (simp add: align_columns_def getitem_list_def DataFrame_single)
qed

section \<open>Facts about the fallback loops\<close>

lemma series_fillna_no_null: "\<not> isnull fill \<Longrightarrow> \<not> list_ex isnull (series_fillna vs fill)"
  by (induction vs) (auto simp: series_fillna_def fillna_cell_def)

lemma median_or_zero_not_null: "\<not> isnull (median_or_zero vs)"
  by (simp add: median_or_zero_def Let_def)

lemma most_frequent_mem: "v0 \<in> set vs \<Longrightarrow> most_frequent vs v0 \<in> set vs"
proof -
  have "b \<in> set vs \<Longrightarrow> set us \<subseteq> set vs \<Longrightarrow>
        fold (\<lambda>v best. if count_list vs best < count_list vs v then v else best) us b \<in> set vs"
    for us b
    by (induction us arbitrary: b) auto
  then show "v0 \<in> set vs \<Longrightarrow> most_frequent vs v0 \<in> set vs"
    by (simp add: most_frequent_def)
qed

lemma mode_or_empty_not_null: "\<not> isnull (mode_or_empty vs)"
proof (cases "dropna vs")
  case Nil
  then show ?thesis by (simp add: mode_or_empty_def series_mode0_def)
next
  case (Cons v rest)
  then have "most_frequent (v # rest) v \<in> set (dropna vs)"
    using most_frequent_mem [of v "v # rest"] by simp
  then have "\<not> isnull (most_frequent (v # rest) v)"
    by (simp add: dropna_def)
  with Cons show ?thesis by (simp add: mode_or_empty_def series_mode0_def)
qed

lemma fill_num_cells_no_null: "\<not> list_ex isnull (fill_num_cells vs)"
  by (simp add: fill_num_cells_def series_fillna_no_null median_or_zero_not_null)

lemma fill_obj_cells_no_null: "\<not> list_ex isnull (fill_obj_cells vs)"
  by (simp add: fill_obj_cells_def series_fillna_no_null mode_or_empty_not_null)

lemma fill_num_cells_id: "\<not> list_ex isnull vs \<Longrightarrow> fill_num_cells vs = vs"
  by (simp add: fill_num_cells_def)

lemma fill_obj_cells_id: "\<not> list_ex isnull vs \<Longrightarrow> fill_obj_cells vs = vs"
  by (simp add: fill_obj_cells_def)

lemma getitem_Inr: "getitem df c = Inr vs \<Longrightarrow> filter (\<lambda>(n, xs). n = c) (cols df) = [(c, vs)]"
proof -
  assume a: "getitem df c = Inr vs"
  then obtain n where f: "filter (\<lambda>(n, xs). n = c) (cols df) = [(n, vs)]"
    by (auto simp: getitem_def split: list.splits)
  then have "(n, vs) \<in> set (filter (\<lambda>(n, xs). n = c) (cols df))" by simp
  then have "n = c" by simp
  with f show ?thesis by simp
qed

lemma getitem_unique:
  assumes "getitem df c = Inr vs" and "(c, xs) \<in> set (cols df)"
  shows "xs = vs"
proof -
  have "(c, xs) \<in> set (filter (\<lambda>(n, xs). n = c) (cols df))"
    using assms(2) by simp
  then show ?thesis
    using getitem_Inr [OF assms(1)] by simp
qed

lemma getitem_mem: "getitem df c = Inr vs \<Longrightarrow> (c, vs) \<in> set (cols df)"
proof -
  assume "getitem df c = Inr vs"
  then have "(c, vs) \<in> set (filter (\<lambda>(n, xs). n = c) (cols df))"
    using getitem_Inr by fastforce
  then show ?thesis by simp
qed

lemma setitem_on_label:
  assumes "getitem df c = Inr vs"
  shows "setitem df c (f vs) = df\<lparr>cols := map (on_label c f) (cols df)\<rparr>"
proof -
  have mem: "c \<in> set (columns df)"
    using getitem_mem [OF assms] by (force simp: columns_def)
  have "map (\<lambda>(n, xs). if n = c then (n, f vs) else (n, xs)) (cols df) = map (on_label c f) (cols df)"
    using getitem_unique [OF assms] by (auto simp: on_label_def)
  with mem show ?thesis by (simp add: setitem_def)
qed

lemma on_label_id: "(\<And>xs. (c, xs) \<in> set cs \<Longrightarrow> f xs = xs) \<Longrightarrow> map (on_label c f) cs = cs"
  by (induction cs) (auto simp: on_label_def)

lemma fill_numeric_Inr:
  assumes "fill_numeric c df = Inr df'"
  shows "df' = df\<lparr>cols := map (on_label c fill_num_cells) (cols df)\<rparr> \<and>
         (\<exists>vs. getitem df c = Inr vs)"
proof -
  obtain vs where g: "getitem df c = Inr vs"
    using assms by (auto simp: fill_numeric_def split: sum.splits)
  show ?thesis
  proof (cases "list_ex isnull vs")
    case True
    then have "df' = setitem df c (fill_num_cells vs)"
      using assms g by (simp add: fill_numeric_def fill_num_cells_def)
    then show ?thesis using g setitem_on_label [OF g] by simp
  next
    case False
    then have "df' = df" using assms g by (simp add: fill_numeric_def)
    moreover have "map (on_label c fill_num_cells) (cols df) = cols df"
      using getitem_unique [OF g] False by (intro on_label_id) (auto simp: fill_num_cells_def)
    ultimately show ?thesis using g by simp
  qed
qed

lemma fill_object_Inr:
  assumes "fill_object c df = Inr df'"
  shows "df' = df\<lparr>cols := map (on_label c fill_obj_cells) (cols df)\<rparr> \<and>
         (\<exists>vs. getitem df c = Inr vs)"
proof -
  obtain vs where g: "getitem df c = Inr vs"
    using assms by (auto simp: fill_object_def split: sum.splits)
  show ?thesis
  proof (cases "list_ex isnull vs")
    case True
    then have "df' = setitem df c (fill_obj_cells vs)"
      using assms g by (simp add: fill_object_def fill_obj_cells_def)
    then show ?thesis using g setitem_on_label [OF g] by simp
  next
    case False
    then have "df' = df" using assms g by (simp add: fill_object_def)
    moreover have "map (on_label c fill_obj_cells) (cols df) = cols df"
      using getitem_unique [OF g] False by (intro on_label_id) (auto simp: fill_obj_cells_def)
    ultimately show ?thesis using g by simp
  qed
qed

lemma filter_label_count:
  "length (filter (\<lambda>(n, xs). n = c) cs) = count_list (map fst cs) c"
  by (induction cs) auto

lemma getitem_Inr_iff: "(\<exists>vs. getitem df c = Inr vs) \<longleftrightarrow> count_list (columns df) c = 1"
proof
  assume "\<exists>vs. getitem df c = Inr vs"
  then obtain vs where "getitem df c = Inr vs" ..
  then have "length (filter (\<lambda>(n, xs). n = c) (cols df)) = 1"
    using getitem_Inr by fastforce
  then show "count_list (columns df) c = 1"
    by (simp add: filter_label_count columns_def)
next
  assume "count_list (columns df) c = 1"
  then have "length (filter (\<lambda>(n, xs). n = c) (cols df)) = 1"
    by (simp add: filter_label_count columns_def)
  then obtain n vs where "filter (\<lambda>(n, xs). n = c) (cols df) = [(n, vs)]"
    by (cases "filter (\<lambda>(n, xs). n = c) (cols df)") auto
  then show "\<exists>vs. getitem df c = Inr vs"
    by (simp add: getitem_def)
qed

lemma fst_on_label [simp]: "fst (on_label c f col) = fst col"
  by (simp add: on_label_def)

lemma fst_on_labels [simp]: "fst (on_labels C f col) = fst col"
  by (simp add: on_labels_def)

lemma columns_on_label [simp]: "columns (df\<lparr>cols := map (on_label c f) (cols df)\<rparr>) = columns df"
  by (simp add: columns_def comp_def)

lemma columns_on_labels [simp]: "columns (df\<lparr>cols := map (on_labels C f) (cols df)\<rparr>) = columns df"
  by (simp add: columns_def comp_def)

lemma on_labels_step:
  assumes "\<And>xs. f (f xs) = f xs"
  shows "on_labels (set cs) f (on_label c f col) = on_labels (set (c # cs)) f col"
  using assms by (auto simp: on_labels_def on_label_def)

lemma for_each_Inr:
  assumes step: "\<And>c df df'. step c df = Inr df' \<Longrightarrow>
             df' = df\<lparr>cols := map (on_label c f) (cols df)\<rparr> \<and> (\<exists>vs. getitem df c = Inr vs)"
    and idem: "\<And>xs. f (f xs) = f xs"
  shows "for_each step cs df = Inr df' \<Longrightarrow>
           df' = df\<lparr>cols := map (on_labels (set cs) f) (cols df)\<rparr> \<and>
           (\<forall>c\<in>set cs. count_list (columns df) c = 1)"
proof (induction cs arbitrary: df)
  case Nil
  have "map (on_labels {} f) (cols df) = cols df"
    by (induction "cols df") (auto simp: on_labels_def map_idI)
  with Nil show ?case by simp
next
  case (Cons c cs)
  from Cons.prems obtain df1 where s1: "step c df = Inr df1" and r: "for_each step cs df1 = Inr df'"
    by (auto split: sum.splits)
  have d1: "df1 = df\<lparr>cols := map (on_label c f) (cols df)\<rparr>" and g: "\<exists>vs. getitem df c = Inr vs"
    using step [OF s1] by auto
  have ih: "df' = df1\<lparr>cols := map (on_labels (set cs) f) (cols df1)\<rparr>"
    and cnt: "\<forall>c\<in>set cs. count_list (columns df1) c = 1"
    using Cons.IH [OF r] by auto
  have "df' = df\<lparr>cols := map (on_labels (set (c # cs)) f) (cols df)\<rparr>"
    using ih d1 on_labels_step [OF idem] by (simp add: comp_def)
  moreover have "\<forall>c'\<in>set (c # cs). count_list (columns df) c' = 1"
    using cnt g d1 getitem_Inr_iff by simp
  ultimately show ?case by blast
qed

lemma for_each_total:
  assumes step: "\<And>c df df'. step c df = Inr df' \<Longrightarrow>
             df' = df\<lparr>cols := map (on_label c f) (cols df)\<rparr> \<and> (\<exists>vs. getitem df c = Inr vs)"
    and total: "\<And>c df. count_list (columns df) c = 1 \<Longrightarrow> \<exists>df'. step c df = Inr df'"
  shows "\<forall>c\<in>set cs. count_list (columns df) c = 1 \<Longrightarrow> \<exists>df'. for_each step cs df = Inr df'"
proof (induction cs arbitrary: df)
  case Nil
  then show ?case by simp
next
  case (Cons c cs)
  then obtain df1 where s1: "step c df = Inr df1"
    using total [of df c] by auto
  then have "columns df1 = columns df"
    using step [OF s1] by auto
  then obtain df' where "for_each step cs df1 = Inr df'"
    using Cons.IH [of df1] Cons.prems by auto
  with s1 show ?case by simp
qed

lemma fill_numeric_total: "count_list (columns df) c = 1 \<Longrightarrow> \<exists>df'. fill_numeric c df = Inr df'"
proof -
  assume "count_list (columns df) c = 1"
  then obtain vs where "getitem df c = Inr vs"
    using getitem_Inr_iff by blast
  then show ?thesis by (simp add: fill_numeric_def)
qed

lemma fill_object_total: "count_list (columns df) c = 1 \<Longrightarrow> \<exists>df'. fill_object c df = Inr df'"
proof -
  assume "count_list (columns df) c = 1"
  then obtain vs where "getitem df c = Inr vs"
    using getitem_Inr_iff by blast
  then show ?thesis by (simp add: fill_object_def)
qed

lemma fill_num_cells_idem: "fill_num_cells (fill_num_cells xs) = fill_num_cells xs"
  by (simp add: fill_num_cells_id fill_num_cells_no_null)

lemma fill_obj_cells_idem: "fill_obj_cells (fill_obj_cells xs) = fill_obj_cells xs"
  by (simp add: fill_obj_cells_id fill_obj_cells_no_null)

lemma numeric_loop_Inr:
  assumes "for_each fill_numeric cs df = Inr df'"
  shows "df' = df\<lparr>cols := map (on_labels (set cs) fill_num_cells) (cols df)\<rparr> \<and>
         (\<forall>c\<in>set cs. count_list (columns df) c = 1)"
  using assms
proof (rule for_each_Inr [rotated 2])
  show "\<And>c df df'. fill_numeric c df = Inr df' \<Longrightarrow>
          df' = df\<lparr>cols := map (on_label c fill_num_cells) (cols df)\<rparr> \<and> (\<exists>vs. getitem df c = Inr vs)"
    by (rule fill_numeric_Inr)
  show "\<And>xs. fill_num_cells (fill_num_cells xs) = fill_num_cells xs"
    by (rule fill_num_cells_idem)
qed

lemma object_loop_Inr:
  assumes "for_each fill_object cs df = Inr df'"
  shows "df' = df\<lparr>cols := map (on_labels (set cs) fill_obj_cells) (cols df)\<rparr> \<and>
         (\<forall>c\<in>set cs. count_list (columns df) c = 1)"
  using assms
proof (rule for_each_Inr [rotated 2])
  show "\<And>c df df'. fill_object c df = Inr df' \<Longrightarrow>
          df' = df\<lparr>cols := map (on_label c fill_obj_cells) (cols df)\<rparr> \<and> (\<exists>vs. getitem df c = Inr vs)"
    by (rule fill_object_Inr)
  show "\<And>xs. fill_obj_cells (fill_obj_cells xs) = fill_obj_cells xs"
    by (rule fill_obj_cells_idem)
qed

lemma numeric_loop_total:
  assumes "\<forall>c\<in>set cs. count_list (columns df) c = 1"
  shows "\<exists>df'. for_each fill_numeric cs df = Inr df'"
  using assms
proof (rule for_each_total [rotated 2])
  show "\<And>c df df'. fill_numeric c df = Inr df' \<Longrightarrow>
          df' = df\<lparr>cols := map (on_label c fill_num_cells) (cols df)\<rparr> \<and> (\<exists>vs. getitem df c = Inr vs)"
    by (rule fill_numeric_Inr)
  show "\<And>c df. count_list (columns df) c = 1 \<Longrightarrow> \<exists>df'. fill_numeric c df = Inr df'"
    by (rule fill_numeric_total)
qed

lemma object_loop_total:
  assumes "\<forall>c\<in>set cs. count_list (columns df) c = 1"
  shows "\<exists>df'. for_each fill_object cs df = Inr df'"
  using assms
proof (rule for_each_total [rotated 2])
  show "\<And>c df df'. fill_object c df = Inr df' \<Longrightarrow>
          df' = df\<lparr>cols := map (on_label c fill_obj_cells) (cols df)\<rparr> \<and> (\<exists>vs. getitem df c = Inr vs)"
    by (rule fill_object_Inr)
  show "\<And>c df. count_list (columns df) c = 1 \<Longrightarrow> \<exists>df'. fill_object c df = Inr df'"
    by (rule fill_object_total)
qed

lemma mem_num_cols: "(n, xs) \<in> set (cols df) \<Longrightarrow> is_numeric_col xs \<Longrightarrow> n \<in> set (num_cols df)"
  by (force simp: num_cols_def)

lemma mem_obj_cols: "(n, xs) \<in> set (cols df) \<Longrightarrow> \<not> is_numeric_col xs \<Longrightarrow> n \<in> set (obj_cols df)"
  by (force simp: obj_cols_def)

lemma num_cols_sub: "set (num_cols df) \<subseteq> set (columns df)"
  by (auto simp: num_cols_def columns_def)

lemma obj_cols_sub: "set (obj_cols df) \<subseteq> set (columns df)"
  by (auto simp: obj_cols_def columns_def)

lemma impute_fallback_no_null:
  assumes "impute_fallback df = Inr df'"
  shows "\<not> any_null df'"
proof -
  obtain df1 where l1: "for_each fill_numeric (num_cols df) df = Inr df1"
    and l2: "for_each fill_object (obj_cols df1) df1 = Inr df'"
    using assms by (auto simp: impute_fallback_def split: sum.splits)
  have c1: "cols df1 = map (on_labels (set (num_cols df)) fill_num_cells) (cols df)"
    using numeric_loop_Inr [OF l1] by simp
  have c2: "cols df' = map (on_labels (set (obj_cols df1)) fill_obj_cells) (cols df1)"
    using object_loop_Inr [OF l2] by simp
  have "\<not> list_ex isnull (snd (on_labels (set (obj_cols df1)) fill_obj_cells col1))"
    if m: "col1 \<in> set (cols df1)" for col1
  proof -
    obtain col where cm: "col \<in> set (cols df)"
      and c1eq: "col1 = on_labels (set (num_cols df)) fill_num_cells col"
      using m c1 by auto
    show ?thesis
    proof (cases "fst col \<in> set (num_cols df)")
      case True
      then have "snd col1 = fill_num_cells (snd col)"
        using c1eq by (simp add: on_labels_def)
      then have "\<not> list_ex isnull (snd col1)"
        by (simp add: fill_num_cells_no_null)
      then show ?thesis
        by (simp add: on_labels_def fill_obj_cells_id)
    next
      case False
      then have same: "col1 = col" using c1eq by (simp add: on_labels_def)
      have "\<not> is_numeric_col (snd col)"
        using False cm mem_num_cols [of "fst col" "snd col" df] by auto
      then have "fst col1 \<in> set (obj_cols df1)"
        using m same mem_obj_cols [of "fst col1" "snd col1" df1] by auto
      then show ?thesis
        by (simp add: on_labels_def fill_obj_cells_no_null)
    qed
  qed
  then show ?thesis
    by (auto simp: any_null_def c2 list_ex_iff)
qed

lemma distinct_count_1: "distinct xs \<Longrightarrow> x \<in> set xs \<Longrightarrow> count_list xs x = 1"
  by (induction xs) (auto simp: count_list_0_iff)

lemma distinct_label_unique:
  "distinct (map fst cs) \<Longrightarrow> (n, xs) \<in> set cs \<Longrightarrow> (n, ys) \<in> set cs \<Longrightarrow> xs = ys"
  by (meson eq_key_imp_eq_value)

lemma impute_fallback_distinct:
  assumes dist: "distinct (columns df)"
  shows "impute_fallback df = Inr (df\<lparr>cols := map fill_col (cols df)\<rparr>)"
proof -
  have "\<forall>c\<in>set (num_cols df). count_list (columns df) c = 1"
  proof
    fix c assume "c \<in> set (num_cols df)"
    then have "c \<in> set (columns df)" using num_cols_sub [of df] by (rule subsetD [rotated])
    then show "count_list (columns df) c = 1" using dist by (simp add: distinct_count_1)
  qed
  then obtain df1 where l1: "for_each fill_numeric (num_cols df) df = Inr df1"
    using numeric_loop_total by blast
  have d1: "df1 = df\<lparr>cols := map (on_labels (set (num_cols df)) fill_num_cells) (cols df)\<rparr>"
    using numeric_loop_Inr [OF l1] by simp
  have cols1: "columns df1 = columns df"
    by (simp add: d1)
  have "\<forall>c\<in>set (obj_cols df1). count_list (columns df1) c = 1"
  proof
    fix c assume "c \<in> set (obj_cols df1)"
    then have "c \<in> set (columns df1)" using obj_cols_sub [of df1] by (rule subsetD [rotated])
    then show "count_list (columns df1) c = 1" using dist cols1 by (simp add: distinct_count_1)
  qed
  then obtain df2 where l2: "for_each fill_object (obj_cols df1) df1 = Inr df2"
    using object_loop_total by blast
  have d2: "df2 = df1\<lparr>cols := map (on_labels (set (obj_cols df1)) fill_obj_cells) (cols df1)\<rparr>"
    using object_loop_Inr [OF l2] by simp
  have dist1: "distinct (map fst (cols df1))"
    using dist cols1 by (simp add: columns_def)
  have step: "on_labels (set (obj_cols df1)) fill_obj_cells
                (on_labels (set (num_cols df)) fill_num_cells col) = fill_col col"
    if cm: "col \<in> set (cols df)" for col
  proof (cases "is_numeric_col (snd col)")
    case True
    then have "fst col \<in> set (num_cols df)"
      using cm mem_num_cols [of "fst col" "snd col" df] by simp
    then show ?thesis
      using True by (simp add: on_labels_def fill_col_def fill_obj_cells_id fill_num_cells_no_null)
  next
    case False
    have notnum: "fst col \<notin> set (num_cols df)"
    proof
      assume "fst col \<in> set (num_cols df)"
      then obtain ys where "(fst col, ys) \<in> set (cols df)" and "is_numeric_col ys"
        by (auto simp: num_cols_def)
      moreover have "(fst col, snd col) \<in> set (cols df)" using cm by simp
      ultimately have "ys = snd col"
        using dist distinct_label_unique [of "cols df" "fst col" ys "snd col"] by (simp add: columns_def)
      with \<open>is_numeric_col ys\<close> False show False by simp
    qed
    then have "col \<in> set (cols df1)"
      using cm d1 by (force simp: on_labels_def)
    then have "fst col \<in> set (obj_cols df1)"
      using False mem_obj_cols [of "fst col" "snd col" df1] by simp
    then show ?thesis
      using False notnum by (simp add: on_labels_def fill_col_def)
  qed
  have "map (on_labels (set (obj_cols df1)) fill_obj_cells)
          (map (on_labels (set (num_cols df)) fill_num_cells) (cols df)) = map fill_col (cols df)"
    using step by simp
  then have "df2 = df\<lparr>cols := map fill_col (cols df)\<rparr>"
    unfolding d2 by (simp add: d1)
  then show ?thesis
    using l1 l2 by (simp add: impute_fallback_def)
qed

section \<open>The claims\<close>

lemma aligned_known:
  "resolve_expected env = Some expected \<Longrightarrow>
   aligned env features =
     Inr \<lparr>nrows = 1, cols = map (\<lambda>c. (c, [aligned_cell features c])) expected\<rparr>"
  by (simp add: aligned_def align_columns_single)

lemma aligned_unknown:
  "resolve_expected env = None \<Longrightarrow> aligned env features = Inr (DataFrame [features])"
  by (simp add: aligned_def)

lemmas frame_eval =
  DataFrame_single uniq_keys_def record_cell_def frame_dtype_def col_dtype_def
  is_numeric_col_def common_dtype_def aligned_cell_def

lemma dropped_bits_none: "a < 2 ^ 53 \<Longrightarrow> dropped_bits a = 0"
proof -
  assume a: "a < 2 ^ 53"
  have "\<not> (2::nat) ^ (53 + j) \<le> a" for j
  proof -
    have "(2::nat) ^ 53 \<le> 2 ^ (53 + j)" by (rule power_increasing) simp_all
    with a show ?thesis by simp
  qed
  then show ?thesis by (simp add: dropped_bits_def)
qed

lemma float64_of_int_exact: "\<bar>n\<bar> < 2 ^ 53 \<Longrightarrow> float64_of_int n = real_of_int n"
proof -
  assume n: "\<bar>n\<bar> < 2 ^ 53"
  then have "nat \<bar>n\<bar> < 2 ^ 53"
    by (simp add: nat_less_iff)
  then have "float64_of_nat (nat \<bar>n\<bar>) = nat \<bar>n\<bar>"
    by (simp add: float64_of_nat_def round_half_even_def dropped_bits_none)
  then show ?thesis
    by (auto simp: float64_of_int_def abs_if split: if_splits)
qed

lemma dropped_bits_2_53_plus_1: "dropped_bits 9007199254740993 = 1"
  by (simp add: dropped_bits_def upt_rec)

lemma float64_of_nat_2_53_plus_1: "float64_of_nat 9007199254740993 = 9007199254740992"
  by (simp add: float64_of_nat_def round_half_even_def dropped_bits_2_53_plus_1)

lemma float64_of_int_2_53_plus_1: "float64_of_int 9007199254740993 = 9007199254740992"
  by (simp add: float64_of_int_def float64_of_nat_2_53_plus_1)

lemma astype_small_integer:
  assumes "\<forall>n. v = PInt n \<longrightarrow> \<bar>n\<bar> < 2 ^ 53"
  shows "astype d v = v \<or> (\<exists>n. v = PInt n \<and> astype d v = PFloat (real_of_int n))"
proof (cases "\<exists>n. d = Float64 \<and> v = PInt n")
  case True
  then obtain n where "d = Float64" and v: "v = PInt n" by blast
  moreover have "float64_of_int n = real_of_int n"
    using assms v by (simp add: float64_of_int_exact)
  ultimately show ?thesis by simp
next
  case False
  then have "astype d v = v"
    by (cases d; cases v) auto
  then show ?thesis by simp
qed

lemma aligned_cell_small_integer:
  assumes "map_of features c = Some v"
    and "\<forall>n. v = PInt n \<longrightarrow> \<bar>n\<bar> < 2 ^ 53"
  shows "aligned_cell features c = v \<or>
         (\<exists>n. v = PInt n \<and> aligned_cell features c = PFloat (real_of_int n))"
  using assms astype_small_integer [of v "frame_dtype (DataFrame [features])"]
  by (simp add: aligned_cell_def)

text \<open>
  Claim C4, at the payload \<^verbatim>\<open>{"a": 9007199254740993, "b": 0.5}\<close> with the expected
  schema \<^verbatim>\<open>["a"]\<close>: the incoming frame has an int64 and a float64 column, the row Series
  of line 86 is float64, and the aligned row holds 9007199254740992.0 under \<open>a\<close>, not
  the payload's value.
\<close>

theorem alignment_rounds_large_integer:
  "align_columns [''a''] (DataFrame [[(''a'', PInt 9007199254740993), (''b'', PFloat (1 / 2))]]) =
     Inr \<lparr>nrows = 1, cols = [(''a'', [PFloat 9007199254740992])]\<rparr>"
  unfolding align_columns_single
  by (simp add: frame_eval float64_of_int_2_53_plus_1)

text \<open>
  Claim C1, as amended. With the expected schema income, age, debt, the payload
  \<^verbatim>\<open>{"income": 50000, "age": 35}\<close> and a scaler whose stored mean for debt is
  1200 (any other means, any model, any transform), the row passed to scaling is
  income 50000, age 35, debt 0: the absent feature keeps the alignment default, none of
  the cells is missing and so the imputation does not run.
\<close>

theorem absent_feature_stays_zero:
  "data_to_scale
     \<lparr>model = m,
      scaler = Some \<lparr>s_feature_names_in = Some [''income'', ''age'', ''debt''],
                     s_mean = MeanArray [mean_income, mean_age, Some 1200],
                     transform = t\<rparr>\<rparr>
     [(''income'', PInt 50000), (''age'', PInt 35)]
   = Inr \<lparr>nrows = 1,
          cols = [(''income'', [PInt 50000]), (''age'', [PInt 35]), (''debt'', [PInt 0])]\<rparr>"
proof -
  let ?env = "\<lparr>model = m,
      scaler = Some \<lparr>s_feature_names_in = Some [''income'', ''age'', ''debt''],
                     s_mean = MeanArray [mean_income, mean_age, Some 1200],
                     transform = t\<rparr>\<rparr>"
  have e: "resolve_expected ?env = Some [''income'', ''age'', ''debt'']"
    by (simp add: resolve_expected_def)
  show ?thesis
    by (simp add: data_to_scale_def aligned_known [OF e] e frame_eval impute_def any_null_def)
qed

text \<open>
  Claim C1 as stated fails: for that payload and the example scaler, whose mean for debt
  is 1200, the row passed to scaling does not hold 1200 under debt, neither as the float
  of the stored mean nor as an integer.
\<close>

theorem absent_feature_not_mean_filled:
  "data_to_scale \<lparr>model = Some strict_model, scaler = Some demo_scaler\<rparr>
     [(''income'', PInt 50000), (''age'', PInt 35)]
   \<noteq> Inr \<lparr>nrows = 1,
           cols = [(''income'', [PInt 50000]), (''age'', [PInt 35]), (''debt'', [PFloat 1200])]\<rparr> \<and>
   data_to_scale \<lparr>model = Some strict_model, scaler = Some demo_scaler\<rparr>
     [(''income'', PInt 50000), (''age'', PInt 35)]
   \<noteq> Inr \<lparr>nrows = 1,
           cols = [(''income'', [PInt 50000]), (''age'', [PInt 35]), (''debt'', [PInt 1200])]\<rparr>"
proof -
  have e: "resolve_expected \<lparr>model = Some strict_model, scaler = Some demo_scaler\<rparr>
             = Some [''income'', ''age'', ''debt'']"
    by (simp add: resolve_expected_def demo_scaler_def)
  show ?thesis
    by (simp add: data_to_scale_def aligned_known [OF e] e frame_eval impute_def any_null_def)
qed

lemma impute_no_null: "impute env expected df = Inr df' \<Longrightarrow> \<not> any_null df'"
  by (auto simp: impute_def Let_def impute_fallback_no_null split: if_splits)

text \<open>
  Claim C5. Whenever line 121 is reached, the frame handed to the scaling step (to
  \<^verbatim>\<open>scaler.transform\<close>, or read as raw values) has no missing cell: no \<^verbatim>\<open>None\<close> and
  no NaN in the sense of \<^verbatim>\<open>isnull\<close>.
\<close>

theorem no_null_reaches_scaling:
  "data_to_scale env features = Inr df \<Longrightarrow> \<not> any_null df"
  by (auto simp: data_to_scale_def split: sum.splits dest: impute_no_null)

text \<open>
  An instance with no scaler and no schema: a \<^verbatim>\<open>null\<close> income and a NaN age are filled
  by the fallback, and the frame handed on has no missing cell.
\<close>

theorem no_null_reaches_scaling_witness:
  "data_to_scale \<lparr>model = Some margin_model, scaler = None\<rparr>
      [(''income'', PNone), (''age'', PNaN), (''debt'', PInt 5)] =
     Inr \<lparr>nrows = 1, cols = [(''income'', [PStr []]), (''age'', [PFloat 0]), (''debt'', [PInt 5])]\<rparr> \<and>
   \<not> any_null \<lparr>nrows = 1, cols = [(''income'', [PStr []]), (''age'', [PFloat 0]), (''debt'', [PInt 5])]\<rparr>"
proof -
  have e: "resolve_expected \<lparr>model = Some margin_model, scaler = None\<rparr> = None"
    by (simp add: resolve_expected_def model_names_def margin_model_def)
  have h: "data_to_scale \<lparr>model = Some margin_model, scaler = None\<rparr>
      [(''income'', PNone), (''age'', PNaN), (''debt'', PInt 5)] =
     Inr \<lparr>nrows = 1, cols = [(''income'', [PStr []]), (''age'', [PFloat 0]), (''debt'', [PInt 5])]\<rparr>"
    by (simp add: data_to_scale_def aligned_unknown [OF e] e DataFrame_single uniq_keys_def
          record_cell_def impute_def any_null_def impute_mean_def
          impute_fallback_distinct columns_def fill_col_def is_numeric_col_def
          fill_num_cells_def fill_obj_cells_def series_fillna_def fillna_cell_def
          median_or_zero_def mode_or_empty_def series_mode0_def dropna_def)
  show ?thesis
    using h no_null_reaches_scaling [OF h] by simp
qed

lemma columns_fillna_dict [simp]: "columns (fillna_dict df fv) = columns df"
  by (simp add: columns_def fillna_dict_def comp_def case_prod_beta)

lemma columns_impute_mean [simp]: "columns (impute_mean env expected df) = columns df"
  by (simp add: impute_mean_def split: option.splits sum.splits)

lemma impute_total:
  "distinct (columns df) \<Longrightarrow> \<exists>df'. impute env expected df = Inr df'"
  by (simp add: impute_def Let_def impute_fallback_distinct)

lemma columns_DataFrame_single: "columns (DataFrame [features]) = uniq_keys (map fst features)"
  by (simp add: columns_def DataFrame_single comp_def)

lemma data_to_scale_unknown_total:
  "resolve_expected env = None \<Longrightarrow> \<exists>df. data_to_scale env features = Inr df"
  by (simp add: data_to_scale_def aligned_unknown impute_total columns_DataFrame_single distinct_uniq_keys)

lemma startup_no_model: "model (startup lm ls) = None \<Longrightarrow> startup lm ls = \<lparr>model = None, scaler = None\<rparr>"
  by (auto simp: startup_def split: sum.splits)

text \<open>
  Claim C7. When the model failed to load at start-up, every payload that is a JSON
  object gets the body with the error "model not loaded", with status 200.
\<close>

theorem model_absent_soft_error:
  assumes "model (startup load_model load_scaler) = None"
  shows "predict_default (startup load_model load_scaler) (PDict features) =
           Returned (ErrorOnly ''model not loaded'') \<and>
         http_status (predict_default (startup load_model load_scaler) (PDict features)) = 200"
proof -
  let ?env = "\<lparr>model = None, scaler = None\<rparr>"
  have env: "startup load_model load_scaler = ?env"
    using assms by (rule startup_no_model)
  have "resolve_expected ?env = None"
    by (simp add: resolve_expected_def model_names_def)
  then obtain df where "data_to_scale ?env features = Inr df"
    using data_to_scale_unknown_total by blast
  then have "predict_body ?env (PDict features) = Inr (ErrorOnly ''model not loaded'')"
    by (simp add: predict_body_def scale_def)
  then show ?thesis
    by (simp add: env predict_default_def)
qed

text \<open>
  An instance: the model file is missing, so the scaler is never loaded either.
\<close>

theorem model_absent_soft_error_witness:
  "model (startup (Inl (ArtifactError ''credit_scoring_model.pkl not found'')) (Inr demo_scaler)) = None \<and>
   predict_default (startup (Inl (ArtifactError ''credit_scoring_model.pkl not found'')) (Inr demo_scaler))
       (PDict [(''income'', PInt 50000), (''age'', PNone)]) =
     Returned (ErrorOnly ''model not loaded'') \<and>
   http_status (predict_default (startup (Inl (ArtifactError ''credit_scoring_model.pkl not found'')) (Inr demo_scaler))
       (PDict [(''income'', PInt 50000), (''age'', PNone)])) = 200"
proof -
  have h: "model (startup (Inl (ArtifactError ''credit_scoring_model.pkl not found'')) (Inr demo_scaler)) = None"
    by (simp add: startup_def)
  show ?thesis
    using h model_absent_soft_error [OF h, of "[(''income'', PInt 50000), (''age'', PNone)]"] by simp
qed

lemma count_1_distinct: "\<forall>x\<in>set xs. count_list xs x = 1 \<Longrightarrow> distinct xs"
proof (induction xs)
  case Nil
  then show ?case by simp
next
  case (Cons a xs)
  have a: "a \<notin> set xs"
    using Cons.prems by (auto simp: count_list_0_iff)
  have "\<forall>x\<in>set xs. count_list xs x = 1"
  proof
    fix x assume x: "x \<in> set xs"
    then have "x \<noteq> a" using a by auto
    then show "count_list xs x = 1" using Cons.prems x by auto
  qed
  then show ?case using Cons.IH a by simp
qed

lemma impute_fallback_Inr_distinct:
  assumes "impute_fallback df = Inr df'"
  shows "distinct (columns df)"
proof -
  obtain df1 where l1: "for_each fill_numeric (num_cols df) df = Inr df1"
    and l2: "for_each fill_object (obj_cols df1) df1 = Inr df'"
    using assms by (auto simp: impute_fallback_def split: sum.splits)
  have d1: "df1 = df\<lparr>cols := map (on_labels (set (num_cols df)) fill_num_cells) (cols df)\<rparr>"
    and cnt1: "\<forall>c\<in>set (num_cols df). count_list (columns df) c = 1"
    using numeric_loop_Inr [OF l1] by auto
  have cnt2: "\<forall>c\<in>set (obj_cols df1). count_list (columns df1) c = 1"
    using object_loop_Inr [OF l2] by auto
  have cols1: "columns df1 = columns df"
    by (simp add: d1)
  have "\<forall>n\<in>set (columns df). count_list (columns df) n = 1"
  proof
    fix n assume "n \<in> set (columns df)"
    then obtain xs where m: "(n, xs) \<in> set (cols df)"
      by (auto simp: columns_def)
    show "count_list (columns df) n = 1"
    proof (cases "n \<in> set (num_cols df)")
      case True
      then show ?thesis using cnt1 by simp
    next
      case False
      then have nn: "\<not> is_numeric_col xs"
        using m mem_num_cols by blast
      have "on_labels (set (num_cols df)) fill_num_cells (n, xs) = (n, xs)"
        using False by (simp add: on_labels_def)
      then have "(n, xs) \<in> set (cols df1)"
        using m d1 by (force simp: image_iff)
      then have "n \<in> set (obj_cols df1)"
        using nn mem_obj_cols by blast
      then show ?thesis using cnt2 cols1 by simp
    qed
  qed
  then show ?thesis by (rule count_1_distinct)
qed

lemma single_row_DataFrame: "single_row (DataFrame [features])"
  by (simp add: single_row_def DataFrame_single list_all_iff)

lemma single_row_aligned: "aligned env features = Inr df \<Longrightarrow> single_row df"
proof (cases "resolve_expected env")
  case None
  assume "aligned env features = Inr df"
  with None have "df = DataFrame [features]" by (simp add: aligned_unknown)
  then show ?thesis by (simp only: single_row_DataFrame)
next
  case (Some expected)
  assume "aligned env features = Inr df"
  with Some show ?thesis by (auto simp: aligned_known single_row_def list_all_iff)
qed

lemma single_row_fillna_dict: "single_row df \<Longrightarrow> single_row (fillna_dict df fv)"
  by (auto simp: single_row_def fillna_dict_def list_all_iff series_fillna_def split: option.splits)

lemma single_row_impute_mean: "single_row df \<Longrightarrow> single_row (impute_mean env expected df)"
  by (simp add: impute_mean_def single_row_fillna_dict split: option.splits sum.splits)

lemma single_cell: "single_row df \<Longrightarrow> col \<in> set (cols df) \<Longrightarrow> \<exists>v. snd col = [v]"
proof -
  assume "single_row df" and "col \<in> set (cols df)"
  then have "length (snd col) = 1" by (simp add: single_row_def list_all_iff)
  then show ?thesis by (cases "snd col") auto
qed

lemma fill_col_single: "snd col = [v] \<Longrightarrow> fill_col col = degenerate_fill col"
  by (cases "isnull v")
     (simp_all add: fill_col_def degenerate_fill_def fill_num_cells_def fill_obj_cells_def
        series_fillna_def fillna_cell_def median_or_zero_def mode_or_empty_def series_mode0_def
        dropna_def)

lemma null_single_stats:
  "snd col = [v] \<Longrightarrow> list_ex isnull (snd col) \<Longrightarrow>
     dropna (snd col) = [] \<and> series_mode0 (snd col) = Inl KeyError"
  by (simp add: dropna_def series_mode0_def)

text \<open>
  Claim C9. The frame on which the median and mode fallback runs has exactly one row;
  so in each of its columns with a missing cell no value remains after dropping the
  missing ones and the mode cannot be indexed, and when the fallback completes every
  such column holds 0 if it is numeric and the empty string if it is not, the other
  columns being unchanged.
\<close>

theorem fallback_degenerate:
  assumes "aligned env features = Inr df0"
    and "impute_fallback (impute_mean env (resolve_expected env) df0) = Inr df'"
  shows "single_row (impute_mean env (resolve_expected env) df0) \<and>
         (\<forall>col\<in>set (cols (impute_mean env (resolve_expected env) df0)).
            list_ex isnull (snd col) \<longrightarrow>
              dropna (snd col) = [] \<and> series_mode0 (snd col) = Inl KeyError) \<and>
         df' = (impute_mean env (resolve_expected env) df0)
                 \<lparr>cols := map degenerate_fill (cols (impute_mean env (resolve_expected env) df0))\<rparr>"
proof -
  let ?df1 = "impute_mean env (resolve_expected env) df0"
  have sr: "single_row ?df1"
    using assms(1) by (intro single_row_impute_mean single_row_aligned)
  have stats: "\<forall>col\<in>set (cols ?df1). list_ex isnull (snd col) \<longrightarrow>
      dropna (snd col) = [] \<and> series_mode0 (snd col) = Inl KeyError"
    using single_cell [OF sr] null_single_stats by blast
  have "distinct (columns ?df1)"
    using assms(2) by (rule impute_fallback_Inr_distinct)
  then have "impute_fallback ?df1 = Inr (?df1\<lparr>cols := map fill_col (cols ?df1)\<rparr>)"
    by (rule impute_fallback_distinct)
  moreover have "map fill_col (cols ?df1) = map degenerate_fill (cols ?df1)"
  proof (rule map_cong [OF refl])
    fix col assume "col \<in> set (cols ?df1)"
    then obtain v where "snd col = [v]" using single_cell [OF sr] by blast
    then show "fill_col col = degenerate_fill col" by (rule fill_col_single)
  qed
  ultimately have "df' = ?df1\<lparr>cols := map degenerate_fill (cols ?df1)\<rparr>"
    using assms(2) by simp
  with sr stats show ?thesis by blast
qed

text \<open>
  An instance: the fallback on the one-row frame built from a payload with a \<^verbatim>\<open>null\<close>
  and a NaN.
\<close>

theorem fallback_degenerate_witness:
  "aligned \<lparr>model = Some margin_model, scaler = None\<rparr>
      [(''income'', PNone), (''age'', PNaN), (''debt'', PInt 5)] =
     Inr \<lparr>nrows = 1, cols = [(''income'', [PNone]), (''age'', [PNaN]), (''debt'', [PInt 5])]\<rparr> \<and>
   impute_fallback \<lparr>nrows = 1, cols = [(''income'', [PNone]), (''age'', [PNaN]), (''debt'', [PInt 5])]\<rparr> =
     Inr \<lparr>nrows = 1, cols = [(''income'', [PStr []]), (''age'', [PFloat 0]), (''debt'', [PInt 5])]\<rparr> \<and>
   single_row \<lparr>nrows = 1, cols = [(''income'', [PNone]), (''age'', [PNaN]), (''debt'', [PInt 5])]\<rparr> \<and>
   dropna [PNaN] = [] \<and> series_mode0 [PNone] = Inl KeyError"
proof -
  let ?env = "\<lparr>model = Some margin_model, scaler = None\<rparr>"
  let ?features = "[(''income'', PNone), (''age'', PNaN), (''debt'', PInt 5)]"
  let ?df0 = "\<lparr>nrows = 1, cols = [(''income'', [PNone]), (''age'', [PNaN]), (''debt'', [PInt 5])]\<rparr>"
  let ?df' = "\<lparr>nrows = 1, cols = [(''income'', [PStr []]), (''age'', [PFloat 0]), (''debt'', [PInt 5])]\<rparr>"
  have e: "resolve_expected ?env = None"
    by (simp add: resolve_expected_def model_names_def margin_model_def)
  have m: "impute_mean ?env (resolve_expected ?env) ?df0 = ?df0"
    by (simp add: impute_mean_def)
  have h1: "aligned ?env ?features = Inr ?df0"
    by (simp add: aligned_unknown [OF e] DataFrame_single uniq_keys_def record_cell_def)
  have h2: "impute_fallback (impute_mean ?env (resolve_expected ?env) ?df0) = Inr ?df'"
    unfolding m
    by (simp add: impute_fallback_distinct columns_def fill_col_def is_numeric_col_def
          fill_num_cells_def fill_obj_cells_def series_fillna_def fillna_cell_def
          median_or_zero_def mode_or_empty_def series_mode0_def dropna_def)
  from fallback_degenerate [OF h1 h2]
  have "single_row ?df0" and "dropna [PNaN] = [] \<and> series_mode0 [PNone] = Inl KeyError"
    unfolding m by simp_all
  with h1 h2 show ?thesis unfolding m by simp
qed

text \<open>
  Claim C6. In the probability step: when the model has a class-probability method and
  it succeeds, the probability is the one it gives for the positive class; when that
  method is missing or raises and the decision-score method succeeds, the probability is
  the logistic transform of the score, \<open>1 / (1 + exp (- score))\<close> for a finite score;
  the probability is \<^verbatim>\<open>None\<close> exactly when each of the two methods is missing or
  raises; and whenever \<^verbatim>\<open>predict\<close> has succeeded the handler returns the prediction
  result with that probability, whatever the two methods did.
\<close>

theorem probability_step:
  "(\<forall>f p. predict_proba m = Some f \<and> f x = Inr p \<longrightarrow> probability m x = Some p) \<and>
   (\<forall>g score.
      (predict_proba m = None \<or> (\<exists>f e. predict_proba m = Some f \<and> f x = Inl e)) \<and>
      decision_function m = Some g \<and> g x = Inr score \<longrightarrow>
        probability m x = Some (sigmoid score)) \<and>
   (\<forall>g score.
      (predict_proba m = None \<or> (\<exists>f e. predict_proba m = Some f \<and> f x = Inl e)) \<and>
      decision_function m = Some g \<and> g x = Inr (Finite score) \<longrightarrow>
        probability m x = Some (Finite (1 / (1 + exp (- score))))) \<and>
   (probability m x = None \<longleftrightarrow>
      (predict_proba m = None \<or> (\<exists>f e. predict_proba m = Some f \<and> f x = Inl e)) \<and>
      (decision_function m = None \<or> (\<exists>g e. decision_function m = Some g \<and> g x = Inl e))) \<and>
   (\<forall>env features df prediction.
      model env = Some m \<and> data_to_scale env features = Inr df \<and> scale env df = Inr x \<and>
      predict m x = Inr prediction \<longrightarrow>
        predict_default env (PDict features) =
          Returned (PredictionResult prediction (probability m x)))"
proof (intro conjI)
  show "\<forall>f p. predict_proba m = Some f \<and> f x = Inr p \<longrightarrow> probability m x = Some p"
    by (simp add: probability_def proba_attempt_def)
  show "\<forall>g score.
      (predict_proba m = None \<or> (\<exists>f e. predict_proba m = Some f \<and> f x = Inl e)) \<and>
      decision_function m = Some g \<and> g x = Inr score \<longrightarrow>
        probability m x = Some (sigmoid score)"
    by (auto simp: probability_def proba_attempt_def decision_attempt_def)
  show "\<forall>g score.
      (predict_proba m = None \<or> (\<exists>f e. predict_proba m = Some f \<and> f x = Inl e)) \<and>
      decision_function m = Some g \<and> g x = Inr (Finite score) \<longrightarrow>
        probability m x = Some (Finite (1 / (1 + exp (- score))))"
    by (auto simp: probability_def proba_attempt_def decision_attempt_def)
  show "probability m x = None \<longleftrightarrow>
      (predict_proba m = None \<or> (\<exists>f e. predict_proba m = Some f \<and> f x = Inl e)) \<and>
      (decision_function m = None \<or> (\<exists>g e. decision_function m = Some g \<and> g x = Inl e))"
    by (auto simp: probability_def proba_attempt_def decision_attempt_def
        split: option.splits sum.splits)
  show "\<forall>env features df prediction.
      model env = Some m \<and> data_to_scale env features = Inr df \<and> scale env df = Inr x \<and>
      predict m x = Inr prediction \<longrightarrow>
        predict_default env (PDict features) =
          Returned (PredictionResult prediction (probability m x))"
    by (simp add: predict_default_def predict_body_def respond_def)
qed

text \<open>
  Instances: a model with class probabilities, a margin classifier with score 0, and a
  model whose only probability method raises.
\<close>

theorem probability_step_witness:
  "probability strict_model [[PInt 1]] = Some (Finite (3 / 4)) \<and>
   probability margin_model [[PInt 1]] = Some (Finite (1 / 2)) \<and>
   probability bare_model [[PInt 1]] = None \<and>
   predict_default \<lparr>model = Some bare_model, scaler = None\<rparr> (PDict [(''income'', PInt 1)]) =
     Returned (PredictionResult 0 None)"
proof -
  let ?env = "\<lparr>model = Some bare_model, scaler = None\<rparr>"
  have a: "probability strict_model [[PInt 1]] = Some (Finite (3 / 4))"
    using probability_step [of strict_model "[[PInt 1]]"]
    by (simp add: strict_model_def all_numbers_def)
  have b: "probability margin_model [[PInt 1]] = Some (Finite (1 / 2))"
    using probability_step [of margin_model "[[PInt 1]]"]
    by (simp add: margin_model_def)
  have c: "probability bare_model [[PInt 1]] = None"
    using probability_step [of bare_model "[[PInt 1]]"]
    by (simp add: bare_model_def)
  have e: "resolve_expected ?env = None"
    by (simp add: resolve_expected_def model_names_def bare_model_def)
  have d: "data_to_scale ?env [(''income'', PInt 1)] = Inr \<lparr>nrows = 1, cols = [(''income'', [PInt 1])]\<rparr>"
    by (simp add: data_to_scale_def aligned_unknown [OF e] DataFrame_single uniq_keys_def
          record_cell_def impute_def any_null_def)
  have s: "scale ?env \<lparr>nrows = 1, cols = [(''income'', [PInt 1])]\<rparr> = Inr [[PInt 1]]"
    by (simp add: scale_def values_of_def frame_dtype_def col_dtype_def is_numeric_col_def
          common_dtype_def)
  have p: "predict bare_model [[PInt 1]] = Inr 0"
    by (simp add: bare_model_def)
  have "predict_default ?env (PDict [(''income'', PInt 1)]) =
          Returned (PredictionResult 0 (probability bare_model [[PInt 1]]))"
    using probability_step [of bare_model "[[PInt 1]]"] d s p by simp
  with a b c show ?thesis by simp
qed




lemma handler_returns:
  "(\<exists>prediction prob. predict_default env payload = Returned (PredictionResult prediction prob)) \<or>
   (\<exists>e. predict_default env payload = Returned (ErrorTrace e)) \<or>
   predict_default env payload = Returned (ErrorOnly ''model not loaded'')"
proof (cases "predict_body env payload")
  case (Inl e)
  then show ?thesis by (simp add: predict_default_def)
next
  case (Inr b)
  then have "(\<exists>prediction prob. b = PredictionResult prediction prob) \<or> b = ErrorOnly ''model not loaded''"
    by (auto simp: predict_body_def respond_def split: sum.splits option.splits pyval.splits)
  with Inr show ?thesis by (auto simp: predict_default_def)
qed


lemma dict_set_fresh: "k \<notin> fst ` set d \<Longrightarrow> dict_set d k v = d @ [(k, v)]"
  by (induction d) auto

lemma validate_items_object:
  "distinct (map fst (d @ kvs)) \<Longrightarrow>
   validate_items fmt (map (\<lambda>(k, v). (PStr k, v)) kvs) d = Inr (d @ kvs)"
proof (induction kvs arbitrary: d)
  case Nil
  then show ?case by simp
next
  case (Cons kv kvs)
  obtain k v where kv: "kv = (k, v)" by (cases kv)
  have fresh: "k \<notin> fst ` set d"
    using Cons.prems kv by auto
  have "distinct (map fst ((d @ [(k, v)]) @ kvs))"
    using Cons.prems kv by simp
  then have "validate_items fmt (map (\<lambda>(k, v). (PStr k, v)) kvs) (d @ [(k, v)]) = Inr ((d @ [(k, v)]) @ kvs)"
    by (rule Cons.IH)
  then show ?case
    using kv fresh by (simp add: dict_set_fresh)
qed

lemma validate_object:
  "distinct (map fst features) \<Longrightarrow> validate_AnyDict fmt (PDict features) = Inr features"
  using validate_items_object [of "[]" features fmt] by (simp add: validate_AnyDict_def)

lemma operation_on_object:
  "distinct (map fst features) \<Longrightarrow>
   predict_operation fmt env (PDict features) = Handled (predict_default env (PDict features))"
  by (simp add: predict_operation_def validate_object)






text \<open>
  Claim C3, at the object payload \<^verbatim>\<open>{"income": 1}\<close> with a model whose class
  probability is NaN: the handler returns the prediction result without raising, the
  result cannot be rendered as JSON, and the status is 500.
\<close>

theorem nan_probability_gets_500:
  "predict_default \<lparr>model = Some nan_model, scaler = None\<rparr> (PDict [(''income'', PInt 1)]) =
     Returned (PredictionResult 1 (Some NotANumber)) \<and>
   http_status (predict_default \<lparr>model = Some nan_model, scaler = None\<rparr>
     (PDict [(''income'', PInt 1)])) = 500 \<and>
   reply_status (predict_operation fmt \<lparr>model = Some nan_model, scaler = None\<rparr>
     (PDict [(''income'', PInt 1)])) = 500"
proof -
  let ?env = "\<lparr>model = Some nan_model, scaler = None\<rparr>"
  have e: "resolve_expected ?env = None"
    by (simp add: resolve_expected_def model_names_def nan_model_def)
  have d: "data_to_scale ?env [(''income'', PInt 1)] = Inr \<lparr>nrows = 1, cols = [(''income'', [PInt 1])]\<rparr>"
    by (simp add: data_to_scale_def aligned_unknown [OF e] DataFrame_single uniq_keys_def
          record_cell_def impute_def any_null_def)
  have s: "scale ?env \<lparr>nrows = 1, cols = [(''income'', [PInt 1])]\<rparr> = Inr [[PInt 1]]"
    by (simp add: scale_def values_of_def frame_dtype_def col_dtype_def is_numeric_col_def
          common_dtype_def)
  have r: "respond nan_model [[PInt 1]] = Inr (PredictionResult 1 (Some NotANumber))"
    by (simp add: respond_def probability_def proba_attempt_def nan_model_def)
  have p: "predict_default ?env (PDict [(''income'', PInt 1)]) =
      Returned (PredictionResult 1 (Some NotANumber))"
    using d s r by (simp add: predict_default_def predict_body_def)
  have o: "predict_operation fmt ?env (PDict [(''income'', PInt 1)]) =
      Handled (predict_default ?env (PDict [(''income'', PInt 1)]))"
    by (rule operation_on_object) simp
  show ?thesis
    by (simp add: o p)
qed

text \<open>
  Claim C10, at the payloads \<^verbatim>\<open>{"a": 9007199254740993}\<close> and
  \<^verbatim>\<open>{"a": 9007199254740993, "b": 0.5}\<close> with the expected schema \<^verbatim>\<open>["a"]\<close>, no scaler and
  a model that predicts class 1 above \<open>2^53\<close>: the two payloads agree on every name of
  the schema, the extra float key makes the row Series of line 86 float64, and the
  responses differ.
\<close>

theorem extra_float_key_changes_response:
  "resolve_expected \<lparr>model = Some threshold_model, scaler = None\<rparr> = Some [''a''] \<and>
   predict_default \<lparr>model = Some threshold_model, scaler = None\<rparr>
     (PDict [(''a'', PInt 9007199254740993)]) =
     Returned (PredictionResult 1 None) \<and>
   predict_default \<lparr>model = Some threshold_model, scaler = None\<rparr>
     (PDict [(''a'', PInt 9007199254740993), (''b'', PFloat (1 / 2))]) =
     Returned (PredictionResult 0 None)"
proof -
  let ?env = "\<lparr>model = Some threshold_model, scaler = None\<rparr>"
  have e: "resolve_expected ?env = Some [''a'']"
    by (simp add: resolve_expected_def model_names_def threshold_model_def)
  have d1: "data_to_scale ?env [(''a'', PInt 9007199254740993)] =
      Inr \<lparr>nrows = 1, cols = [(''a'', [PInt 9007199254740993])]\<rparr>"
    by (simp add: data_to_scale_def aligned_known [OF e] e frame_eval impute_def any_null_def)
  have d2: "data_to_scale ?env [(''a'', PInt 9007199254740993), (''b'', PFloat (1 / 2))] =
      Inr \<lparr>nrows = 1, cols = [(''a'', [PFloat 9007199254740992])]\<rparr>"
    by (simp add: data_to_scale_def aligned_known [OF e] e frame_eval impute_def any_null_def
          float64_of_int_2_53_plus_1)
  have s1: "scale ?env \<lparr>nrows = 1, cols = [(''a'', [PInt 9007199254740993])]\<rparr> =
      Inr [[PInt 9007199254740993]]"
    by (simp add: scale_def values_of_def frame_dtype_def col_dtype_def is_numeric_col_def
          common_dtype_def)
  have s2: "scale ?env \<lparr>nrows = 1, cols = [(''a'', [PFloat 9007199254740992])]\<rparr> =
      Inr [[PFloat 9007199254740992]]"
    by (simp add: scale_def values_of_def frame_dtype_def col_dtype_def is_numeric_col_def
          common_dtype_def)
  have r1: "respond threshold_model [[PInt 9007199254740993]] = Inr (PredictionResult 1 None)"
    by (simp add: respond_def probability_def proba_attempt_def decision_attempt_def
          threshold_model_def)
  have r2: "respond threshold_model [[PFloat 9007199254740992]] = Inr (PredictionResult 0 None)"
    by (simp add: respond_def probability_def proba_attempt_def decision_attempt_def
          threshold_model_def)
  have m: "model ?env = Some threshold_model" by simp
  have p1: "predict_default ?env (PDict [(''a'', PInt 9007199254740993)]) =
      Returned (PredictionResult 1 None)"
    using d1 s1 r1 m by (simp add: predict_default_def predict_body_def)
  have p2: "predict_default ?env (PDict [(''a'', PInt 9007199254740993), (''b'', PFloat (1 / 2))]) =
      Returned (PredictionResult 0 None)"
    using d2 s2 r2 m by (simp add: predict_default_def predict_body_def)
  show ?thesis using e p1 p2 by simp
qed

end
